theory Spec2Isabelle
  imports Main
begin

section \<open>Data-lake ingestion and storage layer\<close>

text \<open>
  A shallow embedding of \<^verbatim>\<open>data_domain/lake/fetchers.py\<close> and
  \<^verbatim>\<open>data_domain/lake/storage.py\<close>. Every function of the two modules is a short
  sequence of calls into the operating system, the HTTP library, a subprocess and the
  object-store client. The model threads an explicit world through these calls and
  records each of them in a trace; every exception of the source is a value of
  \<open>error\<close>, returned as \<open>Inl\<close>.

  Python strings and byte strings are both modelled as \<open>string\<close> (their UTF-8 bytes):
  concatenation and splitting at \<open>/\<close> agree on the two views.
\<close>

subsection \<open>Exceptions\<close>

datatype error =
    HTTPError int                 \<comment> \<open>\<open>requests.HTTPError\<close>, raised by \<open>raise_for_status\<close>\<close>
  | RequestException string       \<comment> \<open>\<open>requests.get\<close> itself failed: no response at all\<close>
  | RuntimeError string
  | FileNotFoundError string
  | FileExistsError
  | NotADirectoryError
  | IsADirectoryError
  | CalledProcessError int        \<comment> \<open>\<open>subprocess.run(check=True)\<close> with a non-zero exit\<close>
  | JSONDecodeError
  | KeyError string
  | TypeError
  | ValueError string
  | S3Error string                \<comment> \<open>any error of the object-store client\<close>
  | IOError string
  | ArrowError string             \<comment> \<open>the columnar codec rejected its input\<close>

subsection \<open>Formatting an integer: \<^verbatim>\<open>f"{year}"\<close>\<close>

definition digit_char :: "nat \<Rightarrow> char" where
  "digit_char d = char_of (48 + d)"

function str_nat :: "nat \<Rightarrow> string" where
  "str_nat n = (if n < 10 then [digit_char n] else str_nat (n div 10) @ [digit_char (n mod 10)])"
  by pat_completeness auto
termination
  by (relation "measure id") auto

declare str_nat.simps [simp del]

definition str_int :: "int \<Rightarrow> string" where
  "str_int i = (if i < 0 then CHR ''-'' # str_nat (nat (- i)) else str_nat (nat i))"

subsection \<open>\<^verbatim>\<open>str.split("/")\<close> and path joining\<close>

text \<open>
  \<open>split_on c s\<close> is Python's \<^verbatim>\<open>s.split(c)\<close> for a one-character separator: the list
  of the segments between the separators, never empty.
\<close>

fun split_on :: "char \<Rightarrow> string \<Rightarrow> string list" where
  "split_on c [] = [[]]"
| "split_on c (x # xs) =
     (if x = c then [] # split_on c xs
      else (case split_on c xs of
              [] \<Rightarrow> [[x]]
            | seg # segs \<Rightarrow> (x # seg) # segs))"

text \<open>\<^verbatim>\<open>s.split("/")[-1]\<close>: the last segment (the list is never empty).\<close>

definition last_segment :: "string \<Rightarrow> string" where
  "last_segment s = last (split_on CHR ''/'' s)"

text \<open>
  A \<^verbatim>\<open>pathlib.Path\<close> is the list of its components; the root of an absolute path is
  the component \<open>''/''\<close>. Parsing a string drops empty components and \<open>.\<close>, as
  \<^verbatim>\<open>PurePosixPath\<close> does. \<open>..\<close> and symbolic links are kept as they are (pathlib
  does not resolve them either). No fetcher builds a file name that starts with \<open>/\<close>, so
  the special root of a name with exactly two leading slashes is not modelled.
\<close>

type_synonym path = "string list"

definition parse_path :: "string \<Rightarrow> path" where
  "parse_path s =
     (if s \<noteq> [] \<and> hd s = CHR ''/'' then [''/''] else []) @
     filter (\<lambda>c. c \<noteq> [] \<and> c \<noteq> ''.'') (split_on CHR ''/'' s)"

text \<open>\<^verbatim>\<open>dest / name\<close>: an absolute right operand replaces the left one.\<close>

definition path_join :: "path \<Rightarrow> string \<Rightarrow> path" where
  "path_join dest name =
     (if name \<noteq> [] \<and> hd name = CHR ''/'' then parse_path name else dest @ parse_path name)"

fun intersperse :: "string \<Rightarrow> string list \<Rightarrow> string" where
  "intersperse sep [] = []"
| "intersperse sep [x] = x"
| "intersperse sep (x # y # ys) = x @ sep @ intersperse sep (y # ys)"

text \<open>\<^verbatim>\<open>str(path)\<close>; the empty path is the current directory.\<close>

definition str_path :: "path \<Rightarrow> string" where
  "str_path p =
     (case p of
        [] \<Rightarrow> ''.''
      | c # cs \<Rightarrow> (if c = ''/'' then ''/'' @ intersperse ''/'' cs else intersperse ''/'' p))"

text \<open>\<^verbatim>\<open>DATA_DIR = Path("./data_raw")\<close>\<close>

definition DATA_DIR :: path where
  "DATA_DIR = parse_path ''./data_raw''"

text \<open>\<^verbatim>\<open>dest = dest or DATA_DIR\<close>: a \<^verbatim>\<open>Path\<close> is always truthy, so only \<^verbatim>\<open>None\<close> is replaced.\<close>

definition dest_or_default :: "path option \<Rightarrow> path" where
  "dest_or_default dest = (case dest of None \<Rightarrow> DATA_DIR | Some d \<Rightarrow> d)"

subsection \<open>The world of a fetcher: file system, HTTP, subprocess\<close>

text \<open>
  The file system is the list of its entries, in the order in which a directory listing
  yields them. The current directory (the empty path) and the root always exist.
\<close>

datatype node = Dir | File string

type_synonym fs = "(path \<times> node) list"

datatype event =
    EvMkdir path                \<comment> \<open>\<^verbatim>\<open>dest.mkdir(parents=True, exist_ok=True)\<close>\<close>
  | EvGet string                \<comment> \<open>one call of \<^verbatim>\<open>requests.get(url)\<close>\<close>
  | EvRun "string list"         \<comment> \<open>one call of \<^verbatim>\<open>subprocess.run(cmd, check=True)\<close>\<close>
  | EvWrite path                \<comment> \<open>\<^verbatim>\<open>write_text\<close> or \<^verbatim>\<open>write_bytes\<close> on a path\<close>

record world =
  files :: fs
  trace :: "event list"

datatype json =
    JNull | JBool bool | JNum int | JStr string
  | JArr "json list" | JObj "(string \<times> json) list"

record response =
  status_code :: int
  resp_text :: string              \<comment> \<open>\<^verbatim>\<open>r.text\<close>\<close>
  resp_content :: string           \<comment> \<open>\<^verbatim>\<open>r.content\<close>\<close>
  resp_json :: "json option"       \<comment> \<open>\<^verbatim>\<open>r.json()\<close>; \<open>None\<close> when the body is not JSON\<close>

text \<open>
  What the program cannot control: the answer of the remote server to a URL (a response,
  or an exception of \<^verbatim>\<open>requests.get\<close> itself) and the behaviour of the \<^verbatim>\<open>kaggle\<close>
  tool (it may change the file system; it exits with a code, or cannot be started).
\<close>

record env =
  http :: "string \<Rightarrow> error + response"
  kaggle_cli :: "string list \<Rightarrow> fs \<Rightarrow> (error + int) \<times> fs"

text \<open>A computation that may raise, over a state \<open>'s\<close>.\<close>

type_synonym ('s, 'a) io = "'s \<Rightarrow> (error + 'a) \<times> 's"

definition io_return :: "'a \<Rightarrow> ('s, 'a) io" where
  "io_return x s = (Inr x, s)"

definition io_raise :: "error \<Rightarrow> ('s, 'a) io" where
  "io_raise e s = (Inl e, s)"

definition io_bind :: "('s, 'a) io \<Rightarrow> ('a \<Rightarrow> ('s, 'b) io) \<Rightarrow> ('s, 'b) io" where
  "io_bind m f s = (case m s of (Inl e, s') \<Rightarrow> (Inl e, s') | (Inr x, s') \<Rightarrow> f x s')"

definition io_of :: "error + 'a \<Rightarrow> ('s, 'a) io" where
  "io_of r s = (r, s)"

subsubsection \<open>File-system operations\<close>

definition is_dir :: "fs \<Rightarrow> path \<Rightarrow> bool" where
  "is_dir fs p \<longleftrightarrow> p = [] \<or> p = [''/''] \<or> map_of fs p = Some Dir"

text \<open>
  \<^verbatim>\<open>mkdir(parents=True, exist_ok=True)\<close>: every missing ancestor is created, an existing
  directory is tolerated, an existing file in the way is an error.
\<close>

fun mkdir_from :: "fs \<Rightarrow> path \<Rightarrow> string list \<Rightarrow> error + fs" where
  "mkdir_from fs pre [] = Inr fs"
| "mkdir_from fs pre (c # cs) =
     (let q = pre @ [c] in
      if is_dir fs q then mkdir_from fs q cs
      else if map_of fs q \<noteq> None
        then Inl (if cs = [] then FileExistsError else NotADirectoryError)
      else mkdir_from (fs @ [(q, Dir)]) q cs)"

definition mkdir :: "path \<Rightarrow> (world, unit) io" where
  "mkdir p w =
     (case mkdir_from (files w) [] p of
        Inl e \<Rightarrow> (Inl e, w\<lparr>trace := trace w @ [EvMkdir p]\<rparr>)
      | Inr fs' \<Rightarrow> (Inr (), w\<lparr>files := fs', trace := trace w @ [EvMkdir p]\<rparr>))"

fun fs_store :: "fs \<Rightarrow> path \<Rightarrow> node \<Rightarrow> fs" where
  "fs_store [] p n = [(p, n)]"
| "fs_store ((q, m) # rest) p n =
     (if q = p then (p, n) # rest else (q, m) # fs_store rest p n)"

text \<open>
  Opening a path for writing: a directory cannot be opened, the parent must be a
  directory; an existing file is overwritten.
\<close>

definition write_file :: "path \<Rightarrow> string \<Rightarrow> (world, unit) io" where
  "write_file p data w =
     (let w' = w\<lparr>trace := trace w @ [EvWrite p]\<rparr> in
      if is_dir (files w) p then (Inl IsADirectoryError, w')
      else if \<not> is_dir (files w) (butlast p)
        then (Inl (if map_of (files w) (butlast p) = None
                   then FileNotFoundError (str_path p) else NotADirectoryError), w')
      else (Inr (), w'\<lparr>files := fs_store (files w) p (File data)\<rparr>))"

definition write_text :: "path \<Rightarrow> string \<Rightarrow> (world, unit) io" where
  "write_text p s = write_file p s"

definition write_bytes :: "path \<Rightarrow> string \<Rightarrow> (world, unit) io" where
  "write_bytes p s = write_file p s"

definition ends_with :: "string \<Rightarrow> string \<Rightarrow> bool" where
  "ends_with suffix s \<longleftrightarrow> length suffix \<le> length s \<and> drop (length s - length suffix) s = suffix"

text \<open>\<^verbatim>\<open>list(dest.glob("*.zip"))\<close>: the entries directly under \<open>dest\<close> whose name ends in \<open>.zip\<close>.\<close>

definition zip_entries :: "fs \<Rightarrow> path \<Rightarrow> path list" where
  "zip_entries fs dest =
     map fst (filter (\<lambda>(p, n). p \<noteq> [] \<and> butlast p = dest \<and> ends_with ''.zip'' (last p)) fs)"

definition glob_zip :: "path \<Rightarrow> (world, path list) io" where
  "glob_zip dest w = (Inr (zip_entries (files w) dest), w)"

subsubsection \<open>HTTP and subprocess\<close>

definition requests_get :: "env \<Rightarrow> string \<Rightarrow> (world, response) io" where
  "requests_get env url w = (http env url, w\<lparr>trace := trace w @ [EvGet url]\<rparr>)"

text \<open>
  \<^verbatim>\<open>Response.raise_for_status()\<close> of the \<^verbatim>\<open>requests\<close> library raises \<^verbatim>\<open>HTTPError\<close> for a
  client error (400 to 499) or a server error (500 to 599), and for no other status.
\<close>

definition raise_for_status :: "response \<Rightarrow> (world, unit) io" where
  "raise_for_status r =
     (if 400 \<le> status_code r \<and> status_code r < 600
      then io_raise (HTTPError (status_code r)) else io_return ())"

definition response_json :: "response \<Rightarrow> (world, json) io" where
  "response_json r = (case resp_json r of None \<Rightarrow> io_raise JSONDecodeError | Some j \<Rightarrow> io_return j)"

text \<open>\<^verbatim>\<open>info[key]\<close> on a decoded JSON value: only an object can be indexed by a string.\<close>

definition subscript :: "json \<Rightarrow> string \<Rightarrow> (world, json) io" where
  "subscript j k =
     (case j of
        JObj kvs \<Rightarrow> (case map_of kvs k of None \<Rightarrow> io_raise (KeyError k) | Some v \<Rightarrow> io_return v)
      | _ \<Rightarrow> io_raise TypeError)"

text \<open>
  \<^verbatim>\<open>subprocess.run(cmd, check=True)\<close>: the tool runs on the file system; a non-zero exit
  code raises \<^verbatim>\<open>CalledProcessError\<close>.
\<close>

definition subprocess_run :: "env \<Rightarrow> string list \<Rightarrow> (world, unit) io" where
  "subprocess_run env cmd w =
     (case kaggle_cli env cmd (files w) of
        (res, fs') \<Rightarrow>
          (let w' = w\<lparr>files := fs', trace := trace w @ [EvRun cmd]\<rparr> in
           case res of
             Inl e \<Rightarrow> (Inl e, w')
           | Inr code \<Rightarrow> if code \<noteq> 0 then (Inl (CalledProcessError code), w') else (Inr (), w')))"

subsection \<open>The fetchers\<close>

text \<open>
  Each definition follows its source function line by line; \<open>dest0\<close> is the optional
  \<^verbatim>\<open>dest\<close> argument.
\<close>

definition fetch_kaggle_dataset :: "env \<Rightarrow> string \<Rightarrow> path option \<Rightarrow> (world, path) io" where
  "fetch_kaggle_dataset env dataset dest0 =
     (let dest = dest_or_default dest0 in
      io_bind (mkdir dest) (\<lambda>_.
      let kaggle_cmd =
            [''kaggle'', ''datasets'', ''download'', ''-d'', dataset, ''-p'', str_path dest] in
      io_bind (subprocess_run env kaggle_cmd) (\<lambda>_.
      io_bind (glob_zip dest) (\<lambda>zip_files.
      case zip_files of
        [] \<Rightarrow> io_raise (FileNotFoundError ''No zip file found after Kaggle download.'')
      | z # _ \<Rightarrow> io_return z))))"

definition fetch_kaggle_competition :: "env \<Rightarrow> string \<Rightarrow> path option \<Rightarrow> (world, path) io" where
  "fetch_kaggle_competition env competition dest0 =
     (let dest = dest_or_default dest0 in
      io_bind (mkdir dest) (\<lambda>_.
      let kaggle_cmd =
            [''kaggle'', ''competitions'', ''download'', ''-c'', competition, ''-p'', str_path dest] in
      io_bind (subprocess_run env kaggle_cmd) (\<lambda>_.
      io_bind (glob_zip dest) (\<lambda>zip_files.
      case zip_files of
        [] \<Rightarrow> io_raise (FileNotFoundError ''No zip file found after Kaggle download.'')
      | z # _ \<Rightarrow> io_return z))))"

definition fetch_nadlan_gov_transactions :: "env \<Rightarrow> int \<Rightarrow> path option \<Rightarrow> (world, path) io" where
  \<open>fetch_nadlan_gov_transactions env year dest0 =
     (let url = ''https://data.gov.il/api/3/action/datastore_search'' @
                ''?resource_id=da54c6e7-6c2c-4e7b-9eae-32f7e7fb1317'' @
                ''&limit=100000&filters={'' @ [CHR 0x22] @ ''year'' @ [CHR 0x22] @ '':'' @
                str_int year @ ''}'';
          dest = dest_or_default dest0 in
      io_bind (mkdir dest) (\<lambda>_.
      io_bind (requests_get env url) (\<lambda>r.
      io_bind (raise_for_status r) (\<lambda>_.
      let file_path = path_join dest (''nadlan_transactions_'' @ str_int year @ ''.json'') in
      io_bind (write_text file_path (resp_text r)) (\<lambda>_.
      io_return file_path)))))\<close>

definition fetch_nadlan_taxes_transactions :: "env \<Rightarrow> int \<Rightarrow> path option \<Rightarrow> (world, path) io" where
  "fetch_nadlan_taxes_transactions env page dest0 =
     (let url = ''https://nadlan.taxes.gov.il/some_endpoint?page='' @ str_int page;
          dest = dest_or_default dest0 in
      io_bind (mkdir dest) (\<lambda>_.
      io_bind (requests_get env url) (\<lambda>r.
      io_bind (raise_for_status r) (\<lambda>_.
      let file_path = path_join dest (''nadlan_taxes_page_'' @ str_int page @ ''.html'') in
      io_bind (write_text file_path (resp_text r)) (\<lambda>_.
      io_return file_path)))))"

text \<open>
  The resource fetcher asks the portal for the resource's description first and downloads
  from the URL found there. A description whose URL is not a string fails at the second
  \<^verbatim>\<open>requests.get\<close>, before anything is sent.
\<close>

definition fetch_datagov_resource :: "env \<Rightarrow> string \<Rightarrow> path option \<Rightarrow> (world, path) io" where
  "fetch_datagov_resource env resource_id dest0 =
     (let info_url = ''https://data.gov.il/api/3/action/resource_show?id='' @ resource_id in
      io_bind (requests_get env info_url) (\<lambda>r.
      io_bind (raise_for_status r) (\<lambda>_.
      io_bind (response_json r) (\<lambda>info.
      io_bind (subscript info ''result'') (\<lambda>result.
      io_bind (subscript result ''url'') (\<lambda>url_value.
      let dest = dest_or_default dest0 in
      io_bind (mkdir dest) (\<lambda>_.
      case url_value of
        JStr url \<Rightarrow>
          io_bind (requests_get env url) (\<lambda>r2.
          io_bind (raise_for_status r2) (\<lambda>_.
          let file_name = last_segment url;
              file_path = path_join dest file_name in
          io_bind (write_bytes file_path (resp_content r2)) (\<lambda>_.
          io_return file_path)))
      | _ \<Rightarrow> io_raise TypeError)))))))"

definition fetch_cbs_table :: "env \<Rightarrow> string \<Rightarrow> path option \<Rightarrow> (world, path) io" where
  "fetch_cbs_table env table_id dest0 =
     (let base_url = ''https://www.cbs.gov.il/he/publications/doclib'';
          url = base_url @ ''/'' @ table_id;
          dest = dest_or_default dest0 in
      io_bind (mkdir dest) (\<lambda>_.
      io_bind (requests_get env url) (\<lambda>r.
      io_bind (raise_for_status r) (\<lambda>_.
      let file_name = last_segment url;
          file_path = path_join dest file_name in
      io_bind (write_bytes file_path (resp_content r)) (\<lambda>_.
      io_return file_path)))))"

definition fetch_opentaba_plan :: "env \<Rightarrow> string \<Rightarrow> path option \<Rightarrow> (world, path) io" where
  "fetch_opentaba_plan env plan_id dest0 =
     (let url = ''https://opentaba-server.herokuapp.com/api/plans/'' @ plan_id;
          dest = dest_or_default dest0 in
      io_bind (mkdir dest) (\<lambda>_.
      io_bind (requests_get env url) (\<lambda>r.
      io_bind (raise_for_status r) (\<lambda>_.
      let file_path = path_join dest (''opentaba_plan_'' @ plan_id @ ''.json'') in
      io_bind (write_text file_path (resp_text r)) (\<lambda>_.
      io_return file_path)))))"

definition fetch_citizens4citizens_projects :: "env \<Rightarrow> path option \<Rightarrow> (world, path) io" where
  "fetch_citizens4citizens_projects env dest0 =
     (let url = ''https://c4c.org.il/api/projects'';
          dest = dest_or_default dest0 in
      io_bind (mkdir dest) (\<lambda>_.
      io_bind (requests_get env url) (\<lambda>r.
      if status_code r \<noteq> 200
        then io_raise (RuntimeError ''API endpoint not available or has changed.'')
      else
        (let file_path = path_join dest ''c4c_projects.json'' in
         io_bind (write_text file_path (resp_text r)) (\<lambda>_.
         io_return file_path)))))"

definition fetch_askdata_housing_plans :: "env \<Rightarrow> path option \<Rightarrow> (world, path) io" where
  "fetch_askdata_housing_plans env dest0 =
     (let url = ''https://askdata.co.il/api/plans?limit=1000'';
          dest = dest_or_default dest0 in
      io_bind (mkdir dest) (\<lambda>_.
      io_bind (requests_get env url) (\<lambda>r.
      if status_code r \<noteq> 200
        then io_raise (RuntimeError ''API endpoint not available or has changed.'')
      else
        (let file_path = path_join dest ''askdata_housing_plans.json'' in
         io_bind (write_text file_path (resp_text r)) (\<lambda>_.
         io_return file_path)))))"

definition fetch_hasadna_openpolice_crime :: "env \<Rightarrow> string \<Rightarrow> path option \<Rightarrow> (world, path) io" where
  "fetch_hasadna_openpolice_crime env city dest0 =
     (let url = ''https://openpolice.hasadna.org.il/api/events/?city='' @ city;
          dest = dest_or_default dest0 in
      io_bind (mkdir dest) (\<lambda>_.
      io_bind (requests_get env url) (\<lambda>r.
      io_bind (raise_for_status r) (\<lambda>_.
      let file_path = path_join dest (''hasadna_openpolice_'' @ city @ ''.json'') in
      io_bind (write_text file_path (resp_text r)) (\<lambda>_.
      io_return file_path)))))"

definition fetch_hasadna_openmunicipality_air :: "env \<Rightarrow> int \<Rightarrow> path option \<Rightarrow> (world, path) io" where
  "fetch_hasadna_openmunicipality_air env city_code dest0 =
     (let url = ''https://municipaldata.hasadna.org.il/api/air_quality/'' @ str_int city_code;
          dest = dest_or_default dest0 in
      io_bind (mkdir dest) (\<lambda>_.
      io_bind (requests_get env url) (\<lambda>r.
      io_bind (raise_for_status r) (\<lambda>_.
      let file_path =
            path_join dest (''hasadna_openmunicipality_air_'' @ str_int city_code @ ''.json'') in
      io_bind (write_text file_path (resp_text r)) (\<lambda>_.
      io_return file_path)))))"

definition fetch_kaggle_zillow_prize :: "env \<Rightarrow> path option \<Rightarrow> (world, path) io" where
  "fetch_kaggle_zillow_prize env dest = fetch_kaggle_competition env ''zillow-prize-1'' dest"

definition fetch_kaggle_california_housing :: "env \<Rightarrow> path option \<Rightarrow> (world, path) io" where
  "fetch_kaggle_california_housing env dest =
     fetch_kaggle_dataset env ''camnugent/california-housing-prices'' dest"

definition fetch_kaggle_ames_iowa :: "env \<Rightarrow> path option \<Rightarrow> (world, path) io" where
  "fetch_kaggle_ames_iowa env dest =
     fetch_kaggle_competition env ''house-prices-advanced-regression-techniques'' dest"

text \<open>
  The registry of \<^verbatim>\<open>main\<close> (the dictionary \<^verbatim>\<open>fetchers\<close>): twelve named fetchers, each with
  the parameters of its function.
\<close>

datatype fetcher =
    Kaggle_zillow
  | Kaggle_california
  | Kaggle_ames
  | Nadlan_gov int
  | Nadlan_taxes int
  | Datagov string
  | Cbs string
  | Opentaba string
  | C4c
  | Askdata
  | Hasadna_crime string
  | Hasadna_air int

fun run_fetcher :: "env \<Rightarrow> fetcher \<Rightarrow> path option \<Rightarrow> (world, path) io" where
  "run_fetcher env Kaggle_zillow dest = fetch_kaggle_zillow_prize env dest"
| "run_fetcher env Kaggle_california dest = fetch_kaggle_california_housing env dest"
| "run_fetcher env Kaggle_ames dest = fetch_kaggle_ames_iowa env dest"
| "run_fetcher env (Nadlan_gov year) dest = fetch_nadlan_gov_transactions env year dest"
| "run_fetcher env (Nadlan_taxes page) dest = fetch_nadlan_taxes_transactions env page dest"
| "run_fetcher env (Datagov resource_id) dest = fetch_datagov_resource env resource_id dest"
| "run_fetcher env (Cbs table_id) dest = fetch_cbs_table env table_id dest"
| "run_fetcher env (Opentaba plan_id) dest = fetch_opentaba_plan env plan_id dest"
| "run_fetcher env C4c dest = fetch_citizens4citizens_projects env dest"
| "run_fetcher env Askdata dest = fetch_askdata_housing_plans env dest"
| "run_fetcher env (Hasadna_crime city) dest = fetch_hasadna_openpolice_crime env city dest"
| "run_fetcher env (Hasadna_air city_code) dest = fetch_hasadna_openmunicipality_air env city_code dest"

subsection \<open>The object store\<close>

text \<open>
  The store behind the MinIO client: buckets of objects, the sequence of operations it
  has seen, and two switches for its failures. With \<open>fault = Some e\<close> every request to the
  store raises \<open>e\<close> (the backend cannot be reached); with \<open>read_fault = Some e\<close> reading the
  body of a fetched object raises \<open>e\<close>. The client built by \<^verbatim>\<open>get_minio_client\<close> holds
  only the constants of the configuration, so it is left implicit.
\<close>

record s3object =
  obj_data :: string
  obj_content_type :: string

datatype action =
    BucketExists string
  | MakeBucket string
  | ToParquet                              \<comment> \<open>\<^verbatim>\<open>df.to_parquet(buffer, index=False)\<close>\<close>
  | PutObject string string string string  \<comment> \<open>bucket, object name, bytes sent, content type\<close>
  | GetObject string string
  | Read
  | ReadParquet
  | Close
  | ReleaseConn

record store =
  buckets :: "string \<rightharpoonup> (string \<rightharpoonup> s3object)"
  fault :: "error option"
  read_fault :: "error option"
  log :: "action list"

definition MINIO_BUCKET :: string where
  "MINIO_BUCKET = ''data-lake''"

definition logged :: "action \<Rightarrow> store \<Rightarrow> store" where
  "logged a s = s\<lparr>log := log s @ [a]\<rparr>"

definition bucket_exists :: "string \<Rightarrow> (store, bool) io" where
  "bucket_exists bucket s =
     (case fault s of
        Some e \<Rightarrow> (Inl e, logged (BucketExists bucket) s)
      | None \<Rightarrow> (Inr (buckets s bucket \<noteq> None), logged (BucketExists bucket) s))"

definition make_bucket :: "string \<Rightarrow> (store, unit) io" where
  "make_bucket bucket s =
     (case fault s of
        Some e \<Rightarrow> (Inl e, logged (MakeBucket bucket) s)
      | None \<Rightarrow>
          (if buckets s bucket \<noteq> None
           then (Inl (S3Error ''BucketAlreadyOwnedByYou''), logged (MakeBucket bucket) s)
           else (Inr (), logged (MakeBucket bucket) (s\<lparr>buckets := (buckets s)(bucket \<mapsto> Map.empty)\<rparr>))))"

text \<open>An \<^verbatim>\<open>io.BytesIO\<close>: its bytes and the position of the next read or write.\<close>

record bytesio =
  buf :: string
  pos :: nat

definition BytesIO :: "string \<Rightarrow> bytesio" where
  "BytesIO initial = \<lparr>buf = initial, pos = 0\<rparr>"

definition bytesio_write :: "bytesio \<Rightarrow> string \<Rightarrow> bytesio" where
  "bytesio_write b data =
     \<lparr>buf = take (pos b) (buf b) @ data @ drop (pos b + length data) (buf b),
      pos = pos b + length data\<rparr>"

definition seek :: "bytesio \<Rightarrow> nat \<Rightarrow> bytesio" where
  "seek b n = b\<lparr>pos := n\<rparr>"

definition bytesio_read :: "bytesio \<Rightarrow> string" where
  "bytesio_read b = drop (pos b) (buf b)"

text \<open>\<^verbatim>\<open>buffer.getbuffer().nbytes\<close>\<close>

definition nbytes :: "bytesio \<Rightarrow> nat" where
  "nbytes b = length (buf b)"

text \<open>
  The client validates an object name before it sends anything. A name that is empty or
  all whitespace is refused (\<^verbatim>\<open>if not name.strip(): raise ValueError()\<close>), and so is a name
  with a path segment \<open>.\<close> or \<open>..\<close>. Whitespace is what \<^verbatim>\<open>str.strip()\<close> removes, read here on
  the UTF-8 bytes of the name: the ASCII whitespace characters, and the encodings of
  U+0085, U+00A0, U+1680, U+2000 to U+200A, U+2028, U+2029, U+202F, U+205F and U+3000.
\<close>

definition ascii_space :: "char \<Rightarrow> bool" where
  "ascii_space c \<longleftrightarrow>
     c \<in> set [CHR 0x09, CHR 0x0A, CHR 0x0B, CHR 0x0C, CHR 0x0D,
               CHR 0x1C, CHR 0x1D, CHR 0x1E, CHR 0x1F, CHR 0x20]"

definition space2 :: "char \<Rightarrow> char \<Rightarrow> bool" where
  "space2 a b \<longleftrightarrow> a = CHR 0xC2 \<and> b \<in> set [CHR 0x85, CHR 0xA0]"

definition space3 :: "char \<Rightarrow> char \<Rightarrow> char \<Rightarrow> bool" where
  "space3 a b c \<longleftrightarrow>
     a = CHR 0xE1 \<and> b = CHR 0x9A \<and> c = CHR 0x80 \<or>
     a = CHR 0xE2 \<and> b = CHR 0x80 \<and>
       c \<in> set [CHR 0x80, CHR 0x81, CHR 0x82, CHR 0x83, CHR 0x84, CHR 0x85, CHR 0x86,
                 CHR 0x87, CHR 0x88, CHR 0x89, CHR 0x8A, CHR 0xA8, CHR 0xA9, CHR 0xAF] \<or>
     a = CHR 0xE2 \<and> b = CHR 0x81 \<and> c = CHR 0x9F \<or>
     a = CHR 0xE3 \<and> b = CHR 0x80 \<and> c = CHR 0x80"

text \<open>\<^verbatim>\<open>not name.strip()\<close>: the name consists of whitespace only.\<close>

fun blank :: "string \<Rightarrow> bool" where
  "blank [] = True"
| "blank [a] = ascii_space a"
| "blank [a, b] = (ascii_space a \<and> ascii_space b \<or> space2 a b)"
| "blank (a # b # c # rest) =
     (ascii_space a \<and> blank (b # c # rest) \<or>
      space2 a b \<and> blank (c # rest) \<or>
      space3 a b c \<and> blank rest)"

definition object_name_error :: "string \<Rightarrow> error option" where
  "object_name_error name =
     (if blank name then Some (ValueError [])
      else if ''.'' \<in> set (split_on CHR ''/'' name) \<or> ''..'' \<in> set (split_on CHR ''/'' name)
        then Some (ValueError ''object name with . or .. path segment is not supported'')
      else None)"

text \<open>The names that pass the check.\<close>

definition valid_object_name :: "string \<Rightarrow> bool" where
  "valid_object_name name \<longleftrightarrow>
     \<not> blank name \<and>
     ''.'' \<notin> set (split_on CHR ''/'' name) \<and> ''..'' \<notin> set (split_on CHR ''/'' name)"

text \<open>
  \<^verbatim>\<open>put_object(bucket, name, data, length, content_type)\<close> checks the name, then sends
  \<open>length\<close> bytes read from the stream's current position; a stream that ends early is an
  error.
\<close>

definition put_object :: "string \<Rightarrow> string \<Rightarrow> bytesio \<Rightarrow> nat \<Rightarrow> string \<Rightarrow> (store, unit) io" where
  "put_object bucket name data len content_type s =
     (case object_name_error name of
        Some e \<Rightarrow> (Inl e, s)
      | None \<Rightarrow>
     (let sent = take len (bytesio_read data);
          s' = logged (PutObject bucket name sent content_type) s in
      case fault s of
        Some e \<Rightarrow> (Inl e, s')
      | None \<Rightarrow>
          (case buckets s bucket of
             None \<Rightarrow> (Inl (S3Error ''NoSuchBucket''), s')
           | Some objs \<Rightarrow>
               if length (bytesio_read data) < len
               then (Inl (IOError ''stream having not enough data''), s')
               else (Inr (), s'\<lparr>buckets := (buckets s)(bucket \<mapsto>
                       objs(name \<mapsto> \<lparr>obj_data = sent, obj_content_type = content_type\<rparr>))\<rparr>))))"

text \<open>
  \<^verbatim>\<open>get_object\<close> checks the name in the same way; its response carries the stored bytes.
\<close>

definition get_object :: "string \<Rightarrow> string \<Rightarrow> (store, string) io" where
  "get_object bucket name s =
     (case object_name_error name of
        Some e \<Rightarrow> (Inl e, s)
      | None \<Rightarrow>
     (let s' = logged (GetObject bucket name) s in
      case fault s of
        Some e \<Rightarrow> (Inl e, s')
      | None \<Rightarrow>
          (case buckets s bucket of
             None \<Rightarrow> (Inl (S3Error ''NoSuchBucket''), s')
           | Some objs \<Rightarrow>
               (case objs name of
                  None \<Rightarrow> (Inl (S3Error ''NoSuchKey''), s')
                | Some obj \<Rightarrow> (Inr (obj_data obj), s')))))"

definition response_read :: "string \<Rightarrow> (store, string) io" where
  "response_read response s =
     (case read_fault s of
        Some e \<Rightarrow> (Inl e, logged Read s)
      | None \<Rightarrow> (Inr response, logged Read s))"

definition response_close :: "string \<Rightarrow> (store, unit) io" where
  "response_close response s = (Inr (), logged Close s)"

definition response_release_conn :: "string \<Rightarrow> (store, unit) io" where
  "response_release_conn response s = (Inr (), logged ReleaseConn s)"

subsubsection \<open>Tabular datasets and the columnar codec\<close>

text \<open>
  A dataset is the list of its columns, each a name with its cells. The Parquet encoder
  and decoder belong to pandas; they are parameters of the model. Either may reject its
  input.
\<close>

type_synonym 'v dataframe = "(string \<times> 'v list) list"

record 'v codec =
  encode :: "'v dataframe \<Rightarrow> error + string"
  decode :: "string \<Rightarrow> error + 'v dataframe"

definition to_parquet :: "'v codec \<Rightarrow> 'v dataframe \<Rightarrow> bytesio \<Rightarrow> (store, bytesio) io" where
  "to_parquet c df buffer s =
     (case encode c df of
        Inl e \<Rightarrow> (Inl e, logged ToParquet s)
      | Inr bytes \<Rightarrow> (Inr (bytesio_write buffer bytes), logged ToParquet s))"

definition read_parquet :: "'v codec \<Rightarrow> bytesio \<Rightarrow> (store, 'v dataframe) io" where
  "read_parquet c buffer s = (decode c (bytesio_read buffer), logged ReadParquet s)"

text \<open>The \<^verbatim>\<open>filename\<close> argument is a string or a path; both functions use \<^verbatim>\<open>str(filename)\<close>.\<close>

datatype filename = Name string | PathName path

fun str_filename :: "filename \<Rightarrow> string" where
  "str_filename (Name s) = s"
| "str_filename (PathName p) = str_path p"

subsubsection \<open>The three operations\<close>

definition ensure_bucket_exists :: "string \<Rightarrow> (store, unit) io" where
  "ensure_bucket_exists bucket =
     io_bind (bucket_exists bucket) (\<lambda>found.
     if \<not> found then make_bucket bucket else io_return ())"

definition save_parquet :: "'v codec \<Rightarrow> 'v dataframe \<Rightarrow> filename \<Rightarrow> (store, string) io" where
  "save_parquet c df filename =
     io_bind (ensure_bucket_exists MINIO_BUCKET) (\<lambda>_.
     let buffer = BytesIO [] in
     io_bind (to_parquet c df buffer) (\<lambda>buffer.
     let buffer = seek buffer 0 in
     io_bind (put_object MINIO_BUCKET (str_filename filename) buffer (nbytes buffer)
                ''application/octet-stream'') (\<lambda>_.
     io_return (str_filename filename))))"

definition load_parquet :: "'v codec \<Rightarrow> filename \<Rightarrow> (store, 'v dataframe) io" where
  "load_parquet c filename =
     io_bind (get_object MINIO_BUCKET (str_filename filename)) (\<lambda>response.
     io_bind (response_read response) (\<lambda>data.
     let buffer = BytesIO data in
     io_bind (read_parquet c buffer) (\<lambda>df.
     io_bind (response_close response) (\<lambda>_.
     io_bind (response_release_conn response) (\<lambda>_.
     io_return df)))))"

subsection \<open>Observations on a run\<close>

text \<open>The events a call added to the trace, and those among them that leave the machine.\<close>

definition new_events :: "world \<Rightarrow> world \<Rightarrow> event list" where
  "new_events w w' = drop (length (trace w)) (trace w')"

fun is_request :: "event \<Rightarrow> bool" where
  "is_request (EvGet _) = True"
| "is_request (EvRun _) = True"
| "is_request _ = False"

fun is_write :: "event \<Rightarrow> bool" where
  "is_write (EvWrite _) = True"
| "is_write _ = False"

definition requests_issued :: "world \<Rightarrow> world \<Rightarrow> nat" where
  "requests_issued w w' = length (filter is_request (new_events w w'))"

text \<open>The regular files of a file system, with their contents.\<close>

definition file_entries :: "fs \<Rightarrow> (path \<times> node) list" where
  "file_entries fs = filter (\<lambda>(p, n). n \<noteq> Dir) fs"

text \<open>\<open>a\<close> occurs in \<open>xs\<close> before the first occurrence of \<open>b\<close>.\<close>

definition occurs_before :: "'a \<Rightarrow> 'a \<Rightarrow> 'a list \<Rightarrow> bool" where
  "occurs_before a b xs \<longleftrightarrow> a \<in> set (takeWhile (\<lambda>x. x \<noteq> b) xs)"

subsection \<open>Test doubles\<close>

text \<open>An empty, reachable store; an empty disk; a transport that answers every URL alike.\<close>

definition fresh_store :: store where
  "fresh_store = \<lparr>buckets = Map.empty, fault = None, read_fault = None, log = []\<rparr>"

definition empty_world :: world where
  "empty_world = \<lparr>files = [], trace = []\<rparr>"

definition plain_response :: "int \<Rightarrow> string \<Rightarrow> response" where
  "plain_response code body =
     \<lparr>status_code = code, resp_text = body, resp_content = body, resp_json = None\<rparr>"

definition mock_env :: "response \<Rightarrow> env" where
  "mock_env r = \<lparr>http = (\<lambda>_. Inr r), kaggle_cli = (\<lambda>_ fs. (Inr 0, fs))\<rparr>"

text \<open>
  A codec for the tests: a dataset of one column \<open>a\<close> is written as its cells behind the
  magic bytes \<open>PAR1\<close>; anything else is rejected.
\<close>

definition test_codec :: "char codec" where
  "test_codec =
     \<lparr>encode = (\<lambda>df. case df of
                        [(name, cells)] \<Rightarrow>
                          if name = ''a'' then Inr (''PAR1'' @ cells)
                          else Inl (ArrowError ''unsupported'')
                      | _ \<Rightarrow> Inl (ArrowError ''unsupported'')),
      decode = (\<lambda>bytes. if take 4 bytes = ''PAR1'' then Inr [(''a'', drop 4 bytes)]
                         else Inl (ArrowError ''Parquet magic bytes not found''))\<rparr>"

text \<open>The store after a successful \<open>ensure_bucket_exists MINIO_BUCKET\<close>.\<close>

definition ensured :: "store \<Rightarrow> store" where
  "ensured s =
     (if buckets s MINIO_BUCKET = None
      then s\<lparr>buckets := (buckets s)(MINIO_BUCKET \<mapsto> Map.empty),
             log := log s @ [BucketExists MINIO_BUCKET, MakeBucket MINIO_BUCKET]\<rparr>
      else s\<lparr>log := log s @ [BucketExists MINIO_BUCKET]\<rparr>)"

text \<open>A store whose object \<open>bad.parquet\<close> was not written by \<open>save_parquet\<close>.\<close>

definition corrupt_store :: store where
  "corrupt_store =
     fresh_store\<lparr>buckets := [''data-lake'' \<mapsto>
       [''bad.parquet'' \<mapsto> \<lparr>obj_data = ''not parquet'', obj_content_type = ''text/plain''\<rparr>]]\<rparr>"

subsection \<open>The common shape of the fetchers\<close>

text \<open>
  Eight of the fetchers create the destination, issue one request, check the status and
  write one file; the Kaggle fetchers create the destination, run the tool and look for
  an archive. The two shapes are written out here once, with the effect of each step on
  the world made explicit; every fetcher is proved equal to its shape below, and the
  shapes serve only in proofs.
\<close>

definition status_error :: "response \<Rightarrow> error option" where
  "status_error r =
     (if 400 \<le> status_code r \<and> status_code r < 600 then Some (HTTPError (status_code r)) else None)"

definition not_200_error :: "response \<Rightarrow> error option" where
  "not_200_error r =
     (if status_code r \<noteq> 200 then Some (RuntimeError ''API endpoint not available or has changed.'')
      else None)"

definition download ::
  "env \<Rightarrow> string \<Rightarrow> path \<Rightarrow> string \<Rightarrow> (response \<Rightarrow> error option) \<Rightarrow> (response \<Rightarrow> string) \<Rightarrow> (world, path) io" where
  "download env url dest name chk body w =
     (case mkdir_from (files w) [] dest of
        Inl e \<Rightarrow> (Inl e, w\<lparr>trace := trace w @ [EvMkdir dest]\<rparr>)
      | Inr fs1 \<Rightarrow>
          (let w1 = w\<lparr>files := fs1, trace := trace w @ [EvMkdir dest, EvGet url]\<rparr> in
           case http env url of
             Inl e \<Rightarrow> (Inl e, w1)
           | Inr r \<Rightarrow>
               (case chk r of
                  Some e \<Rightarrow> (Inl e, w1)
                | None \<Rightarrow>
                    (case write_file (path_join dest name) (body r) w1 of
                       (Inl e, w2) \<Rightarrow> (Inl e, w2)
                     | (Inr _, w2) \<Rightarrow> (Inr (path_join dest name), w2)))))"

definition kaggle_download :: "env \<Rightarrow> string list \<Rightarrow> path \<Rightarrow> (world, path) io" where
  "kaggle_download env cmd dest w =
     (case mkdir_from (files w) [] dest of
        Inl e \<Rightarrow> (Inl e, w\<lparr>trace := trace w @ [EvMkdir dest]\<rparr>)
      | Inr fs1 \<Rightarrow>
          (case kaggle_cli env cmd fs1 of
             (res, fs2) \<Rightarrow>
               (let w2 = w\<lparr>files := fs2, trace := trace w @ [EvMkdir dest, EvRun cmd]\<rparr> in
                case res of
                  Inl e \<Rightarrow> (Inl e, w2)
                | Inr code \<Rightarrow>
                    if code \<noteq> 0 then (Inl (CalledProcessError code), w2)
                    else (case zip_entries fs2 dest of
                            [] \<Rightarrow> (Inl (FileNotFoundError ''No zip file found after Kaggle download.''), w2)
                          | z # _ \<Rightarrow> (Inr z, w2)))))"

text \<open>
  A Kaggle tool for the tests: it exits with the given code after leaving the named
  archives in the directory passed after \<open>-p\<close>.
\<close>

definition kaggle_stub :: "int \<Rightarrow> string list \<Rightarrow> env" where
  "kaggle_stub code names =
     \<lparr>http = (\<lambda>_. Inl (RequestException ''offline'')),
      kaggle_cli = (\<lambda>cmd fs.
        (Inr code, fs @ map (\<lambda>n. (parse_path (last cmd) @ [n], File ''PK'')) names))\<rparr>"

text \<open>
  The registry by the way a fetcher fails: the three Kaggle shortcuts run the tool, the two
  undocumented endpoints compare the status with 200, all the others call
  \<^verbatim>\<open>raise_for_status\<close>; among these the resource fetcher is the one with two requests.
\<close>

fun kaggle_backed :: "fetcher \<Rightarrow> bool" where
  "kaggle_backed Kaggle_zillow = True"
| "kaggle_backed Kaggle_california = True"
| "kaggle_backed Kaggle_ames = True"
| "kaggle_backed _ = False"

fun checks_200 :: "fetcher \<Rightarrow> bool" where
  "checks_200 C4c = True"
| "checks_200 Askdata = True"
| "checks_200 _ = False"

fun is_datagov :: "fetcher \<Rightarrow> bool" where
  "is_datagov (Datagov _) = True"
| "is_datagov _ = False"

definition raises_for_status :: "fetcher \<Rightarrow> bool" where
  "raises_for_status f \<longleftrightarrow> \<not> kaggle_backed f \<and> \<not> checks_200 f"

text \<open>The portal's description of a resource, as \<^verbatim>\<open>resource_show\<close> answers it.\<close>

definition datagov_response :: response where
  "datagov_response =
     \<lparr>status_code = 200, resp_text = ''a,b'', resp_content = ''a,b'',
      resp_json = Some (JObj [(''result'',
                    JObj [(''url'', JStr ''https://data.gov.il/dataset/7/permits.csv'')])])\<rparr>"

section \<open>Properties of the object store gateway\<close>

subsection \<open>\<open>ensure_bucket_exists\<close>\<close>

lemma ensure_absent:
  "fault s = None \<Longrightarrow> buckets s b = None \<Longrightarrow>
   ensure_bucket_exists b s =
     (Inr (), s\<lparr>buckets := (buckets s)(b \<mapsto> Map.empty),
                log := log s @ [BucketExists b, MakeBucket b]\<rparr>)"
  by (simp add: ensure_bucket_exists_def io_bind_def bucket_exists_def make_bucket_def logged_def)

lemma ensure_present:
  "fault s = None \<Longrightarrow> buckets s b \<noteq> None \<Longrightarrow>
   ensure_bucket_exists b s = (Inr (), s\<lparr>log := log s @ [BucketExists b]\<rparr>)"
  by (auto simp add: ensure_bucket_exists_def io_bind_def bucket_exists_def logged_def io_return_def)

lemma ensure_fault:
  "fst (bucket_exists b s) = Inl e \<Longrightarrow>
   ensure_bucket_exists b s = (Inl e, s\<lparr>log := log s @ [BucketExists b]\<rparr>)"
  by (auto simp add: ensure_bucket_exists_def io_bind_def bucket_exists_def logged_def
      split: option.splits)

text \<open>
  Claim C5. \<open>ensure_bucket_exists\<close> asks for the bucket first and creates it only when it
  is absent. On a reachable store without the bucket, one call logs the query and one
  creation, and two calls in sequence log the query, one creation and a second query:
  exactly one create-bucket call. When the bucket exists the call returns normally after
  the query alone. When the query itself raises, that error is the result and no creation
  is attempted.
\<close>

theorem ensure_bucket_exists_idempotent:
  "(fault s = None \<and> buckets s b = None \<longrightarrow>
      ensure_bucket_exists b s =
        (Inr (), s\<lparr>buckets := (buckets s)(b \<mapsto> Map.empty),
                   log := log s @ [BucketExists b, MakeBucket b]\<rparr>) \<and>
      io_bind (ensure_bucket_exists b) (\<lambda>_. ensure_bucket_exists b) s =
        (Inr (), s\<lparr>buckets := (buckets s)(b \<mapsto> Map.empty),
                   log := log s @ [BucketExists b, MakeBucket b, BucketExists b]\<rparr>)) \<and>
   (fault s = None \<and> buckets s b \<noteq> None \<longrightarrow>
      ensure_bucket_exists b s = (Inr (), s\<lparr>log := log s @ [BucketExists b]\<rparr>)) \<and>
   (fst (bucket_exists b s) = Inl e \<longrightarrow>
      ensure_bucket_exists b s = (Inl e, s\<lparr>log := log s @ [BucketExists b]\<rparr>))"
  by (auto simp add: ensure_absent ensure_present ensure_fault io_bind_def)

theorem ensure_bucket_exists_idempotent_witness:
  "fault fresh_store = None \<and> buckets fresh_store ''data-lake'' = None \<and>
   io_bind (ensure_bucket_exists ''data-lake'') (\<lambda>_. ensure_bucket_exists ''data-lake'')
       fresh_store =
     (Inr (), fresh_store\<lparr>buckets := (buckets fresh_store)(''data-lake'' \<mapsto> Map.empty),
        log := [BucketExists ''data-lake'', MakeBucket ''data-lake'',
                BucketExists ''data-lake'']\<rparr>) \<and>
   buckets (fresh_store\<lparr>buckets := [''data-lake'' \<mapsto> Map.empty]\<rparr>) ''data-lake'' \<noteq> None \<and>
   ensure_bucket_exists ''data-lake'' (fresh_store\<lparr>buckets := [''data-lake'' \<mapsto> Map.empty]\<rparr>) =
     (Inr (), fresh_store\<lparr>buckets := [''data-lake'' \<mapsto> Map.empty],
                log := [BucketExists ''data-lake'']\<rparr>) \<and>
   fst (bucket_exists ''data-lake'' (fresh_store\<lparr>fault := Some (S3Error ''unreachable'')\<rparr>)) =
     Inl (S3Error ''unreachable'') \<and>
   ensure_bucket_exists ''data-lake'' (fresh_store\<lparr>fault := Some (S3Error ''unreachable'')\<rparr>) =
     (Inl (S3Error ''unreachable''),
      fresh_store\<lparr>fault := Some (S3Error ''unreachable''),
                  log := [BucketExists ''data-lake'']\<rparr>)"
  using ensure_bucket_exists_idempotent [of fresh_store "''data-lake''"]
        ensure_bucket_exists_idempotent
          [of "fresh_store\<lparr>buckets := [''data-lake'' \<mapsto> Map.empty]\<rparr>" "''data-lake''"]
        ensure_bucket_exists_idempotent
          [of "fresh_store\<lparr>fault := Some (S3Error ''unreachable'')\<rparr>" "''data-lake''"
              "S3Error ''unreachable''"]
  by (simp add: fresh_store_def bucket_exists_def logged_def)

subsection \<open>\<open>save_parquet\<close>\<close>

lemma valid_name_passes: "valid_object_name name \<Longrightarrow> object_name_error name = None"
  by (simp add: valid_object_name_def object_name_error_def)

lemma blank_name_refused: "blank name \<Longrightarrow> object_name_error name = Some (ValueError [])"
  by (simp add: object_name_error_def)

lemma put_after_write:
  "fault s = None \<Longrightarrow> buckets s b = Some objs \<Longrightarrow> valid_object_name k \<Longrightarrow>
   put_object b k (seek (bytesio_write (BytesIO []) bytes) 0)
      (nbytes (seek (bytesio_write (BytesIO []) bytes) 0)) ct s =
    (Inr (), s\<lparr>buckets := (buckets s)(b \<mapsto> objs(k \<mapsto> \<lparr>obj_data = bytes, obj_content_type = ct\<rparr>)),
               log := log s @ [PutObject b k bytes ct]\<rparr>)"
  by (simp add: put_object_def valid_name_passes seek_def bytesio_write_def BytesIO_def
      nbytes_def bytesio_read_def logged_def Let_def)

lemma ensure_ensured:
  "fault s = None \<Longrightarrow> ensure_bucket_exists MINIO_BUCKET s = (Inr (), ensured s)"
  by (simp add: ensured_def ensure_absent ensure_present)

lemma ensured_props:
  "fault (ensured s) = fault s"
  "read_fault (ensured s) = read_fault s"
  "buckets (ensured s) MINIO_BUCKET =
     Some (case buckets s MINIO_BUCKET of None \<Rightarrow> Map.empty | Some objs \<Rightarrow> objs)"
  by (auto simp: ensured_def)

lemma save_ok:
  "fault s = None \<Longrightarrow> encode c df = Inr bytes \<Longrightarrow> valid_object_name (str_filename f) \<Longrightarrow>
   save_parquet c df f s =
     (Inr (str_filename f),
      (ensured s)\<lparr>buckets := (buckets (ensured s))(MINIO_BUCKET \<mapsto>
          (case buckets s MINIO_BUCKET of None \<Rightarrow> Map.empty | Some objs \<Rightarrow> objs)
            (str_filename f \<mapsto>
               \<lparr>obj_data = bytes, obj_content_type = ''application/octet-stream''\<rparr>)),
         log := log (ensured s) @
           [ToParquet,
            PutObject MINIO_BUCKET (str_filename f) bytes ''application/octet-stream'']\<rparr>)"
  unfolding save_parquet_def
  by (simp add: io_bind_def ensure_ensured to_parquet_def Let_def logged_def put_after_write
      ensured_props io_return_def)

lemma save_encode_fails:
  "fault s = None \<Longrightarrow> encode c df = Inl e \<Longrightarrow>
   save_parquet c df f s = (Inl e, (ensured s)\<lparr>log := log (ensured s) @ [ToParquet]\<rparr>)"
  unfolding save_parquet_def
  by (simp add: io_bind_def ensure_ensured to_parquet_def Let_def logged_def)

lemma save_blank_name:
  "fault s = None \<Longrightarrow> encode c df = Inr bytes \<Longrightarrow> blank (str_filename f) \<Longrightarrow>
   save_parquet c df f s =
     (Inl (ValueError []), (ensured s)\<lparr>log := log (ensured s) @ [ToParquet]\<rparr>)"
  unfolding save_parquet_def
  by (simp add: io_bind_def ensure_ensured to_parquet_def Let_def logged_def put_object_def
      blank_name_refused)

text \<open>
  Claim C6, as amended. On a reachable store, \<open>save_parquet\<close> first ensures that the bucket
  exists (a query, and a creation when the bucket is absent), then serialises the dataset
  into the in-memory buffer, then, for a key whose string is a valid object name, writes
  the whole buffer under \<open>str(filename)\<close> with the content type
  \<open>application/octet-stream\<close>, and returns \<open>str(filename)\<close>, the name of the object written.
  For a key whose string is empty or all whitespace the client refuses the name: the call
  raises \<open>ValueError\<close> after the bucket has been ensured and the dataset serialised, and no
  object is sent. When the serialisation raises, the bucket has already been ensured and
  nothing is written.
\<close>

theorem save_parquet_steps:
  "fault s = None \<longrightarrow>
     (\<forall>bytes. encode c df = Inr bytes \<and> valid_object_name (str_filename f) \<longrightarrow>
        fst (save_parquet c df f s) = Inr (str_filename f) \<and>
        log (snd (save_parquet c df f s)) =
          log s @ [BucketExists MINIO_BUCKET] @
          (if buckets s MINIO_BUCKET = None then [MakeBucket MINIO_BUCKET] else []) @
          [ToParquet,
           PutObject MINIO_BUCKET (str_filename f) bytes ''application/octet-stream''] \<and>
        (\<exists>objs. buckets (snd (save_parquet c df f s)) MINIO_BUCKET = Some objs \<and>
           objs (str_filename f) =
             Some \<lparr>obj_data = bytes, obj_content_type = ''application/octet-stream''\<rparr>)) \<and>
     (\<forall>bytes. encode c df = Inr bytes \<and> blank (str_filename f) \<longrightarrow>
        fst (save_parquet c df f s) = Inl (ValueError []) \<and>
        log (snd (save_parquet c df f s)) =
          log s @ [BucketExists MINIO_BUCKET] @
          (if buckets s MINIO_BUCKET = None then [MakeBucket MINIO_BUCKET] else []) @
          [ToParquet]) \<and>
     (\<forall>e. encode c df = Inl e \<longrightarrow>
        fst (save_parquet c df f s) = Inl e \<and>
        log (snd (save_parquet c df f s)) =
          log s @ [BucketExists MINIO_BUCKET] @
          (if buckets s MINIO_BUCKET = None then [MakeBucket MINIO_BUCKET] else []) @
          [ToParquet])"
  by (auto simp add: save_ok save_encode_fails save_blank_name ensured_def)

lemma valid_t_parquet: "valid_object_name ''t.parquet''"
  by (simp add: valid_object_name_def ascii_space_def space2_def space3_def)

theorem save_parquet_steps_witness:
  "fault fresh_store = None \<and> encode test_codec [(''a'', ''xy'')] = Inr ''PAR1xy'' \<and>
   valid_object_name (str_filename (Name ''t.parquet'')) \<and>
   fst (save_parquet test_codec [(''a'', ''xy'')] (Name ''t.parquet'') fresh_store) =
     Inr ''t.parquet'' \<and>
   log (snd (save_parquet test_codec [(''a'', ''xy'')] (Name ''t.parquet'') fresh_store)) =
     [BucketExists ''data-lake'', MakeBucket ''data-lake'', ToParquet,
      PutObject ''data-lake'' ''t.parquet'' ''PAR1xy'' ''application/octet-stream''] \<and>
   blank (str_filename (Name [])) \<and>
   fst (save_parquet test_codec [(''a'', ''xy'')] (Name []) fresh_store) = Inl (ValueError []) \<and>
   log (snd (save_parquet test_codec [(''a'', ''xy'')] (Name []) fresh_store)) =
     [BucketExists ''data-lake'', MakeBucket ''data-lake'', ToParquet] \<and>
   encode test_codec [(''b'', ''xy'')] = Inl (ArrowError ''unsupported'') \<and>
   log (snd (save_parquet test_codec [(''b'', ''xy'')] (Name ''t.parquet'') fresh_store)) =
     [BucketExists ''data-lake'', MakeBucket ''data-lake'', ToParquet]"
  using save_parquet_steps [of fresh_store test_codec "[(''a'', ''xy'')]" "Name ''t.parquet''"]
        save_parquet_steps [of fresh_store test_codec "[(''a'', ''xy'')]" "Name []"]
        save_parquet_steps [of fresh_store test_codec "[(''b'', ''xy'')]" "Name ''t.parquet''"]
        valid_t_parquet
  by (simp add: fresh_store_def test_codec_def MINIO_BUCKET_def)

text \<open>
  Claim C6 as stated has the serialisation first. On a fresh store the serialisation does
  not come before the bucket query: the log is query, creation, serialisation, write.
\<close>

theorem save_parquet_order_counterexample:
  "log (snd (save_parquet test_codec [(''a'', ''xy'')] (Name ''t.parquet'') fresh_store)) =
     [BucketExists ''data-lake'', MakeBucket ''data-lake'', ToParquet,
      PutObject ''data-lake'' ''t.parquet'' ''PAR1xy'' ''application/octet-stream''] \<and>
   \<not> occurs_before ToParquet (BucketExists ''data-lake'')
        (log (snd (save_parquet test_codec [(''a'', ''xy'')] (Name ''t.parquet'') fresh_store)))"
  using valid_t_parquet
  by (simp add: save_ok [where bytes = "''PAR1xy''"] fresh_store_def test_codec_def ensured_def
      occurs_before_def MINIO_BUCKET_def)

subsection \<open>\<open>load_parquet\<close>\<close>





text \<open>
  Claim C1 fails on the code. \<open>load_parquet\<close> closes the response and releases its
  connection only after the decoder has returned. On an object that is not Parquet the
  decoder raises, the exception leaves the function, and the log of the call ends with
  the decoding: neither \<open>Close\<close> nor \<open>ReleaseConn\<close> was called.
\<close>

theorem load_parquet_leaks_connection:
  "load_parquet test_codec (Name ''bad.parquet'') corrupt_store =
     (Inl (ArrowError ''Parquet magic bytes not found''),
      corrupt_store\<lparr>log := [GetObject ''data-lake'' ''bad.parquet'', Read, ReadParquet]\<rparr>) \<and>
   ReleaseConn \<notin> set (log (snd (load_parquet test_codec (Name ''bad.parquet'') corrupt_store))) \<and>
   Close \<notin> set (log (snd (load_parquet test_codec (Name ''bad.parquet'') corrupt_store)))"
  by (simp add: load_parquet_def io_bind_def get_object_def object_name_error_def
      ascii_space_def space2_def space3_def response_read_def read_parquet_def
      logged_def Let_def BytesIO_def bytesio_read_def corrupt_store_def fresh_store_def
      MINIO_BUCKET_def test_codec_def)

section \<open>Properties of the fetchers\<close>

subsection \<open>Every fetcher has its shape\<close>

lemma raise_for_status_eq:
  "raise_for_status r w = (case status_error r of Some e \<Rightarrow> (Inl e, w) | None \<Rightarrow> (Inr (), w))"
  by (simp add: raise_for_status_def status_error_def io_raise_def io_return_def)

lemma download_shape:
  "io_bind (mkdir dest) (\<lambda>_.
   io_bind (requests_get env url) (\<lambda>r.
   io_bind (\<lambda>w. case chk r of Some e \<Rightarrow> (Inl e, w) | None \<Rightarrow> (Inr (), w)) (\<lambda>_.
   io_bind (write_file (path_join dest name) (body r)) (\<lambda>_.
   io_return (path_join dest name))))) w = download env url dest name chk body w"
  by (simp add: io_bind_def mkdir_def requests_get_def download_def io_return_def Let_def
      split: sum.splits option.splits prod.splits)

lemma raise_for_status_fun:
  "raise_for_status r = (\<lambda>w. case status_error r of Some e \<Rightarrow> (Inl e, w) | None \<Rightarrow> (Inr (), w))"
  by (rule ext) (rule raise_for_status_eq)

lemma nadlan_gov_download:
  \<open>fetch_nadlan_gov_transactions env year dest0 =
     download env (''https://data.gov.il/api/3/action/datastore_search'' @
                ''?resource_id=da54c6e7-6c2c-4e7b-9eae-32f7e7fb1317'' @
                ''&limit=100000&filters={'' @ [CHR 0x22] @ ''year'' @ [CHR 0x22] @ '':'' @
                str_int year @ ''}'') (dest_or_default dest0)
        (''nadlan_transactions_'' @ str_int year @ ''.json'') status_error resp_text\<close>
  unfolding fetch_nadlan_gov_transactions_def Let_def write_text_def raise_for_status_fun
  by (rule ext) (rule download_shape)

lemma c4c_download:
  "fetch_citizens4citizens_projects env dest0 =
     download env ''https://c4c.org.il/api/projects'' (dest_or_default dest0)
        ''c4c_projects.json'' not_200_error resp_text"
  apply (rule ext)
  apply (simp add: fetch_citizens4citizens_projects_def Let_def write_text_def io_bind_def mkdir_def requests_get_def download_def io_return_def io_raise_def not_200_error_def
      split: sum.splits option.splits prod.splits)
  done

lemma nadlan_taxes_download:
  "fetch_nadlan_taxes_transactions env page dest0 =
     download env (''https://nadlan.taxes.gov.il/some_endpoint?page='' @ str_int page) (dest_or_default dest0)
       (''nadlan_taxes_page_'' @ str_int page @ ''.html'') status_error resp_text"
  unfolding fetch_nadlan_taxes_transactions_def Let_def write_text_def raise_for_status_fun
  by (rule ext) (rule download_shape)

lemma cbs_download:
  "fetch_cbs_table env table_id dest0 =
     download env (''https://www.cbs.gov.il/he/publications/doclib'' @ ''/'' @ table_id) (dest_or_default dest0)
       (last_segment (''https://www.cbs.gov.il/he/publications/doclib'' @ ''/'' @ table_id)) status_error resp_content"
  unfolding fetch_cbs_table_def Let_def write_bytes_def raise_for_status_fun
  by (rule ext) (rule download_shape)

lemma opentaba_download:
  "fetch_opentaba_plan env plan_id dest0 =
     download env (''https://opentaba-server.herokuapp.com/api/plans/'' @ plan_id) (dest_or_default dest0)
       (''opentaba_plan_'' @ plan_id @ ''.json'') status_error resp_text"
  unfolding fetch_opentaba_plan_def Let_def write_text_def raise_for_status_fun
  by (rule ext) (rule download_shape)

lemma hasadna_crime_download:
  "fetch_hasadna_openpolice_crime env city dest0 =
     download env (''https://openpolice.hasadna.org.il/api/events/?city='' @ city) (dest_or_default dest0)
       (''hasadna_openpolice_'' @ city @ ''.json'') status_error resp_text"
  unfolding fetch_hasadna_openpolice_crime_def Let_def write_text_def raise_for_status_fun
  by (rule ext) (rule download_shape)

lemma hasadna_air_download:
  "fetch_hasadna_openmunicipality_air env city_code dest0 =
     download env (''https://municipaldata.hasadna.org.il/api/air_quality/'' @ str_int city_code) (dest_or_default dest0)
       (''hasadna_openmunicipality_air_'' @ str_int city_code @ ''.json'') status_error resp_text"
  unfolding fetch_hasadna_openmunicipality_air_def Let_def write_text_def raise_for_status_fun
  by (rule ext) (rule download_shape)

lemma askdata_download:
  "fetch_askdata_housing_plans env dest0 =
     download env ''https://askdata.co.il/api/plans?limit=1000'' (dest_or_default dest0)
        ''askdata_housing_plans.json'' not_200_error resp_text"
  by (rule ext)
     (simp add: fetch_askdata_housing_plans_def Let_def write_text_def io_bind_def mkdir_def
        requests_get_def download_def io_return_def io_raise_def not_200_error_def
        split: sum.splits option.splits prod.splits)

lemma kaggle_dataset_download:
  "fetch_kaggle_dataset env dataset dest0 =
     kaggle_download env
       [''kaggle'', ''datasets'', ''download'', ''-d'', dataset, ''-p'', str_path (dest_or_default dest0)]
       (dest_or_default dest0)"
  by (rule ext)
     (simp add: fetch_kaggle_dataset_def kaggle_download_def Let_def io_bind_def mkdir_def
        subprocess_run_def glob_zip_def io_return_def io_raise_def
        split: sum.splits prod.splits list.splits)

lemma kaggle_competition_download:
  "fetch_kaggle_competition env competition dest0 =
     kaggle_download env
       [''kaggle'', ''competitions'', ''download'', ''-c'', competition, ''-p'', str_path (dest_or_default dest0)]
       (dest_or_default dest0)"
  by (rule ext)
     (simp add: fetch_kaggle_competition_def kaggle_download_def Let_def io_bind_def mkdir_def
        subprocess_run_def glob_zip_def io_return_def io_raise_def
        split: sum.splits prod.splits list.splits)

lemma file_entries_append_dir [simp]: "file_entries (fs @ [(q, Dir)]) = file_entries fs"
  by (simp add: file_entries_def)

lemma mkdir_from_files:
  "mkdir_from fs pre p = Inr fs1 \<Longrightarrow> file_entries fs1 = file_entries fs"
  by (induction p arbitrary: fs pre) (auto simp: Let_def split: if_splits)

lemma is_dir_append: "is_dir fs q \<Longrightarrow> is_dir (fs @ extra) q"
  by (auto simp: is_dir_def map_add_Some_iff)

lemma mkdir_from_mono:
  "mkdir_from fs pre p = Inr fs1 \<Longrightarrow> is_dir fs q \<Longrightarrow> is_dir fs1 q"
  by (induction p arbitrary: fs pre) (auto simp: Let_def is_dir_append split: if_splits)

lemma is_dir_new: "map_of fs q = None \<Longrightarrow> is_dir (fs @ [(q, Dir)]) q"
  by (simp add: is_dir_def map_add_def)

lemma mkdir_from_is_dir:
  "mkdir_from fs pre p = Inr fs1 \<Longrightarrow> is_dir fs pre \<Longrightarrow> is_dir fs1 (pre @ p)"
proof (induction p arbitrary: fs pre)
  case Nil
  then show ?case by simp
next
  case (Cons c cs)
  show ?case
  proof (cases "is_dir fs (pre @ [c])")
    case True
    with Cons.prems have "mkdir_from fs (pre @ [c]) cs = Inr fs1" by simp
    from Cons.IH [OF this True] show ?thesis by simp
  next
    case False
    with Cons.prems have none: "map_of fs (pre @ [c]) = None"
      and m: "mkdir_from (fs @ [(pre @ [c], Dir)]) (pre @ [c]) cs = Inr fs1"
      by (auto simp: Let_def split: if_splits)
    from Cons.IH [OF m is_dir_new [OF none]] show ?thesis by simp
  qed
qed

lemma mkdir_from_dest: "mkdir_from fs [] p = Inr fs1 \<Longrightarrow> is_dir fs1 p"
  using mkdir_from_is_dir [of fs "[]" p fs1] by (simp add: is_dir_def)

lemma download_check_fails:
  "mkdir_from (files w) [] dest = Inr fs1 \<Longrightarrow> http env url = Inr r \<Longrightarrow> chk r = Some e \<Longrightarrow>
   download env url dest name chk body w =
     (Inl e, w\<lparr>files := fs1, trace := trace w @ [EvMkdir dest, EvGet url]\<rparr>)"
  by (simp add: download_def)

text \<open>
  Claim C8. The two fetchers of undocumented endpoints compare the status with 200
  themselves. Once the destination exists and the server has answered, any status other
  than 200 (a redirect included) makes the call raise \<open>RuntimeError\<close>, which is not the
  \<open>HTTPError\<close> of the other fetchers; the call ends after the request, no write is
  attempted, and the regular files on disk are those from before the call.
\<close>

theorem undocumented_endpoint_not_200:
  assumes "mkdir_from (files w) [] (dest_or_default dest0) = Inr fs1"
    and "status_code r \<noteq> 200"
  shows
   "(http env ''https://c4c.org.il/api/projects'' = Inr r \<longrightarrow>
       fetch_citizens4citizens_projects env dest0 w =
         (Inl (RuntimeError ''API endpoint not available or has changed.''),
          w\<lparr>files := fs1,
            trace := trace w @ [EvMkdir (dest_or_default dest0),
                                EvGet ''https://c4c.org.il/api/projects'']\<rparr>)) \<and>
    (http env ''https://askdata.co.il/api/plans?limit=1000'' = Inr r \<longrightarrow>
       fetch_askdata_housing_plans env dest0 w =
         (Inl (RuntimeError ''API endpoint not available or has changed.''),
          w\<lparr>files := fs1,
            trace := trace w @ [EvMkdir (dest_or_default dest0),
                                EvGet ''https://askdata.co.il/api/plans?limit=1000'']\<rparr>)) \<and>
    file_entries fs1 = file_entries (files w) \<and>
    (\<forall>n. RuntimeError ''API endpoint not available or has changed.'' \<noteq> HTTPError n)"
  using assms
  by (simp add: c4c_download askdata_download download_check_fails not_200_error_def
      mkdir_from_files)

text \<open>
  The hypotheses of C8 hold on an empty disk with a transport that answers 302.
\<close>

theorem undocumented_endpoint_not_200_witness:
  "mkdir_from (files empty_world) [] (dest_or_default None) = Inr [([''data_raw''], Dir)] \<and>
   status_code (plain_response 302 ''moved'') \<noteq> 200 \<and>
   http (mock_env (plain_response 302 ''moved'')) ''https://c4c.org.il/api/projects'' =
     Inr (plain_response 302 ''moved'') \<and>
   fetch_citizens4citizens_projects (mock_env (plain_response 302 ''moved'')) None empty_world =
     (Inl (RuntimeError ''API endpoint not available or has changed.''),
      \<lparr>files = [([''data_raw''], Dir)],
       trace = [EvMkdir [''data_raw''], EvGet ''https://c4c.org.il/api/projects'']\<rparr>) \<and>
   fetch_askdata_housing_plans (mock_env (plain_response 302 ''moved'')) None empty_world =
     (Inl (RuntimeError ''API endpoint not available or has changed.''),
      \<lparr>files = [([''data_raw''], Dir)],
       trace = [EvMkdir [''data_raw''], EvGet ''https://askdata.co.il/api/plans?limit=1000'']\<rparr>)"
proof -
  have m: "mkdir_from (files empty_world) [] (dest_or_default None) = Inr [([''data_raw''], Dir)]"
    by (simp add: empty_world_def dest_or_default_def DATA_DIR_def parse_path_def is_dir_def)
  have s: "status_code (plain_response 302 ''moved'') \<noteq> 200"
    by (simp add: plain_response_def)
  have d: "dest_or_default None = [''data_raw'']"
    by (simp add: dest_or_default_def DATA_DIR_def parse_path_def)
  show ?thesis
    using m s undocumented_endpoint_not_200 [OF m s, of "mock_env (plain_response 302 ''moved'')"]
    by (simp add: mock_env_def empty_world_def d)
qed

lemma zip_entries_empty:
  "zip_entries fs dest = [] \<longleftrightarrow>
   (\<forall>(p, n) \<in> set fs. \<not> (p \<noteq> [] \<and> butlast p = dest \<and> ends_with ''.zip'' (last p)))"
  by (auto simp: zip_entries_def filter_empty_conv)

lemma zip_entries_hd:
  "zip_entries fs dest = z # zs \<Longrightarrow>
   z \<in> fst ` set fs \<and> z \<noteq> [] \<and> butlast z = dest \<and> ends_with ''.zip'' (last z)"
proof -
  assume "zip_entries fs dest = z # zs"
  then have "z \<in> set (zip_entries fs dest)" by simp
  then show ?thesis by (auto simp: zip_entries_def)
qed

lemma kaggle_download_exit:
  assumes "mkdir_from (files w) [] dest = Inr fs1"
    and "kaggle_cli env cmd fs1 = (Inr code, fs2)"
  shows "(code \<noteq> 0 \<longrightarrow> fst (kaggle_download env cmd dest w) = Inl (CalledProcessError code)) \<and>
     (code = 0 \<longrightarrow>
        (fst (kaggle_download env cmd dest w) =
           Inl (FileNotFoundError ''No zip file found after Kaggle download.'') \<longleftrightarrow>
         (\<forall>(p, n) \<in> set fs2. \<not> (p \<noteq> [] \<and> butlast p = dest \<and> ends_with ''.zip'' (last p)))) \<and>
        ((\<exists>(p, n) \<in> set fs2. p \<noteq> [] \<and> butlast p = dest \<and> ends_with ''.zip'' (last p)) \<longrightarrow>
         (\<exists>z. fst (kaggle_download env cmd dest w) = Inr z \<and> z \<in> fst ` set fs2 \<and>
              z \<noteq> [] \<and> butlast z = dest \<and> ends_with ''.zip'' (last z)))) \<and>
     files (snd (kaggle_download env cmd dest w)) = fs2"
proof -
  define none where
    "none \<longleftrightarrow> (\<forall>(p, n) \<in> set fs2. \<not> (p \<noteq> [] \<and> butlast p = dest \<and> ends_with ''.zip'' (last p)))"
  have iff: "zip_entries fs2 dest = [] \<longleftrightarrow> none"
    unfolding none_def by (rule zip_entries_empty)
  have ex: "(\<exists>(p, n) \<in> set fs2. p \<noteq> [] \<and> butlast p = dest \<and> ends_with ''.zip'' (last p)) \<longleftrightarrow> \<not> none"
    unfolding none_def by auto
  show ?thesis
  proof (cases "zip_entries fs2 dest")
    case Nil
    with iff have none by simp
    with assms Nil show ?thesis
      unfolding ex none_def [symmetric]
      by (simp add: kaggle_download_def Let_def)
  next
    case (Cons z zs)
    with iff have "\<not> none" by simp
    with assms Cons zip_entries_hd [OF Cons] show ?thesis
      unfolding ex none_def [symmetric]
      by (simp add: kaggle_download_def Let_def)
  qed
qed

lemma new_events_append [simp]:
  "new_events w (w\<lparr>files := fs, trace := trace w @ evs\<rparr>) = evs"
  "new_events w (w\<lparr>trace := trace w @ evs\<rparr>) = evs"
  "new_events w w = []"
  by (simp_all add: new_events_def)

lemma write_file_world:
  "write_file p data w = (res, w') \<Longrightarrow>
   trace w' = trace w @ [EvWrite p] \<and>
   (files w' = files w \<or> (res = Inr () \<and> files w' = fs_store (files w) p (File data)))"
  by (auto simp: write_file_def Let_def split: if_splits)

lemma download_trace:
  "trace (snd (download env url dest name chk body w)) =
     trace w @ EvMkdir dest #
       (case mkdir_from (files w) [] dest of
          Inl _ \<Rightarrow> []
        | Inr _ \<Rightarrow> EvGet url #
            (case http env url of
               Inl _ \<Rightarrow> []
             | Inr r \<Rightarrow> (case chk r of Some _ \<Rightarrow> [] | None \<Rightarrow> [EvWrite (path_join dest name)])))"
  by (auto simp: download_def Let_def write_file_def split: sum.splits option.splits prod.splits if_splits)

lemma kaggle_download_trace:
  "trace (snd (kaggle_download env cmd dest w)) =
     trace w @ EvMkdir dest #
       (case mkdir_from (files w) [] dest of Inl _ \<Rightarrow> [] | Inr _ \<Rightarrow> [EvRun cmd])"
  by (auto simp: kaggle_download_def Let_def split: sum.splits prod.splits list.splits)

lemma new_events_eq: "trace w' = trace w @ evs \<Longrightarrow> new_events w w' = evs"
  by (simp add: new_events_def)

lemma download_requests:
  "requests_issued w (snd (download env url dest name chk body w)) =
     (case mkdir_from (files w) [] dest of Inl _ \<Rightarrow> 0 | Inr _ \<Rightarrow> 1)"
  by (simp add: requests_issued_def new_events_eq [OF download_trace]
      split: sum.splits option.splits)

lemma kaggle_download_requests:
  "requests_issued w (snd (kaggle_download env cmd dest w)) =
     (case mkdir_from (files w) [] dest of Inl _ \<Rightarrow> 0 | Inr _ \<Rightarrow> 1)"
  by (simp add: requests_issued_def new_events_eq [OF kaggle_download_trace]
      split: sum.splits option.splits)

lemma datagov_trace:
  "\<exists>evs. trace (snd (fetch_datagov_resource env resource_id dest0 w)) =
     trace w @ EvGet (''https://data.gov.il/api/3/action/resource_show?id='' @ resource_id) # evs \<and>
     length (filter is_request evs) \<le> 1"
  unfolding fetch_datagov_resource_def Let_def
  by (auto simp: io_bind_def requests_get_def raise_for_status_eq response_json_def subscript_def
        io_raise_def io_return_def mkdir_def write_bytes_def write_file_def Let_def
      split: sum.splits option.splits prod.splits if_splits json.splits)

text \<open>
  Claim C9. For the two Kaggle fetchers, once the destination exists and the tool has run
  to an exit code: a non-zero code is raised as \<open>CalledProcessError\<close>; with code 0 the
  call raises \<open>FileNotFoundError\<close> exactly when, in the file system the tool left behind,
  no entry directly under the destination has a name ending in \<open>.zip\<close>, and otherwise it
  returns the path of such an entry.
\<close>

theorem kaggle_fetchers_outcome:
  assumes "mkdir_from (files w) [] (dest_or_default dest0) = Inr fs1"
    and "fetch = fetch_kaggle_dataset env slug dest0 \<and>
           cmd = [''kaggle'', ''datasets'', ''download'', ''-d'', slug, ''-p'',
                  str_path (dest_or_default dest0)] \<or>
         fetch = fetch_kaggle_competition env slug dest0 \<and>
           cmd = [''kaggle'', ''competitions'', ''download'', ''-c'', slug, ''-p'',
                  str_path (dest_or_default dest0)]"
    and "kaggle_cli env cmd fs1 = (Inr code, fs2)"
  shows "(code \<noteq> 0 \<longrightarrow> fst (fetch w) = Inl (CalledProcessError code)) \<and>
     (code = 0 \<longrightarrow>
        (fst (fetch w) = Inl (FileNotFoundError ''No zip file found after Kaggle download.'') \<longleftrightarrow>
         (\<forall>(p, n) \<in> set fs2.
            \<not> (p \<noteq> [] \<and> butlast p = dest_or_default dest0 \<and> ends_with ''.zip'' (last p)))) \<and>
        ((\<exists>(p, n) \<in> set fs2.
            p \<noteq> [] \<and> butlast p = dest_or_default dest0 \<and> ends_with ''.zip'' (last p)) \<longrightarrow>
         (\<exists>z. fst (fetch w) = Inr z \<and> z \<in> fst ` set fs2 \<and> z \<noteq> [] \<and>
              butlast z = dest_or_default dest0 \<and> ends_with ''.zip'' (last z)))) \<and>
     files (snd (fetch w)) = fs2"
  using assms(2)
proof
  assume "fetch = fetch_kaggle_dataset env slug dest0 \<and>
           cmd = [''kaggle'', ''datasets'', ''download'', ''-d'', slug, ''-p'',
                  str_path (dest_or_default dest0)]"
  then have "fetch = kaggle_download env cmd (dest_or_default dest0)"
    by (simp add: kaggle_dataset_download)
  then show ?thesis
    using kaggle_download_exit [OF assms(1) assms(3)] by simp
next
  assume "fetch = fetch_kaggle_competition env slug dest0 \<and>
           cmd = [''kaggle'', ''competitions'', ''download'', ''-c'', slug, ''-p'',
                  str_path (dest_or_default dest0)]"
  then have "fetch = kaggle_download env cmd (dest_or_default dest0)"
    by (simp add: kaggle_competition_download)
  then show ?thesis
    using kaggle_download_exit [OF assms(1) assms(3)] by simp
qed

lemma mkdir_data_raw:
  "mkdir_from (files empty_world) [] (dest_or_default None) = Inr [([''data_raw''], Dir)]"
  by (simp add: empty_world_def dest_or_default_def DATA_DIR_def parse_path_def is_dir_def)

lemma dest_default: "dest_or_default None = [''data_raw'']"
  by (simp add: dest_or_default_def DATA_DIR_def parse_path_def)

theorem kaggle_fetchers_outcome_witness:
  "fst (fetch_kaggle_dataset (kaggle_stub 1 []) ''zillow/zecon'' None empty_world) =
     Inl (CalledProcessError 1) \<and>
   fst (fetch_kaggle_competition (kaggle_stub 0 []) ''zillow-prize-1'' None empty_world) =
     Inl (FileNotFoundError ''No zip file found after Kaggle download.'') \<and>
   fst (fetch_kaggle_dataset (kaggle_stub 0 [''zecon.zip'']) ''zillow/zecon'' None empty_world) =
     Inr [''data_raw'', ''zecon.zip'']"
proof -
  note m = mkdir_data_raw
  have k1: "kaggle_cli (kaggle_stub 1 [])
      [''kaggle'', ''datasets'', ''download'', ''-d'', ''zillow/zecon'', ''-p'', str_path (dest_or_default None)]
      [([''data_raw''], Dir)] = (Inr 1, [([''data_raw''], Dir)])"
    by (simp add: kaggle_stub_def)
  have k2: "kaggle_cli (kaggle_stub 0 [])
      [''kaggle'', ''competitions'', ''download'', ''-c'', ''zillow-prize-1'', ''-p'', str_path (dest_or_default None)]
      [([''data_raw''], Dir)] = (Inr 0, [([''data_raw''], Dir)])"
    by (simp add: kaggle_stub_def)
  have k3: "kaggle_cli (kaggle_stub 0 [''zecon.zip''])
      [''kaggle'', ''datasets'', ''download'', ''-d'', ''zillow/zecon'', ''-p'', str_path (dest_or_default None)]
      [([''data_raw''], Dir)] =
      (Inr 0, [([''data_raw''], Dir), ([''data_raw'', ''zecon.zip''], File ''PK'')])"
    by (simp add: kaggle_stub_def dest_default str_path_def parse_path_def)
  show ?thesis
    using kaggle_fetchers_outcome [OF m _ k1, of "fetch_kaggle_dataset (kaggle_stub 1 []) ''zillow/zecon'' None"]
          kaggle_fetchers_outcome [OF m _ k2, of "fetch_kaggle_competition (kaggle_stub 0 []) ''zillow-prize-1'' None"]
          kaggle_fetchers_outcome [OF m _ k3, of "fetch_kaggle_dataset (kaggle_stub 0 [''zecon.zip'']) ''zillow/zecon'' None"]
    by (auto simp add: dest_default ends_with_def)
qed

lemmas fetcher_shapes =
  nadlan_gov_download nadlan_taxes_download cbs_download opentaba_download
  c4c_download askdata_download hasadna_crime_download hasadna_air_download
  fetch_kaggle_zillow_prize_def fetch_kaggle_california_housing_def
  fetch_kaggle_ames_iowa_def kaggle_dataset_download kaggle_competition_download

lemma run_fetcher_download:
  "\<not> is_datagov f \<Longrightarrow> \<not> kaggle_backed f \<Longrightarrow>
   \<exists>url name body.
      run_fetcher env f dest0 =
        download env url (dest_or_default dest0) name
          (if checks_200 f then not_200_error else status_error) body"
  by (cases f) (simp_all add: fetcher_shapes, blast+)

lemma run_fetcher_kaggle:
  "kaggle_backed f \<Longrightarrow>
   \<exists>cmd. run_fetcher env f dest0 = kaggle_download env cmd (dest_or_default dest0)"
  by (cases f) (simp_all add: fetcher_shapes, blast+)

lemma datagov_requests:
  "1 \<le> requests_issued w (snd (fetch_datagov_resource env resource_id dest0 w)) \<and>
   requests_issued w (snd (fetch_datagov_resource env resource_id dest0 w)) \<le> 2"
proof -
  obtain evs where
    t: "trace (snd (fetch_datagov_resource env resource_id dest0 w)) =
          trace w @ EvGet (''https://data.gov.il/api/3/action/resource_show?id='' @ resource_id) # evs"
    and n: "length (filter is_request evs) \<le> 1"
    using datagov_trace by blast
  show ?thesis
    using n by (simp add: requests_issued_def new_events_eq [OF t])
qed

text \<open>
  Claim C2, as amended. Every fetcher of the registry other than the data.gov.il resource
  fetcher issues exactly one request (one call of \<open>requests.get\<close>, or one run of the
  Kaggle tool) when the destination directory can be created, and none when it cannot.
  The resource fetcher asks for the resource's description and then downloads it: one or
  two requests in a call.
\<close>

theorem requests_per_call:
  "(\<not> is_datagov f \<longrightarrow>
      requests_issued w (snd (run_fetcher env f dest0 w)) =
        (case mkdir_from (files w) [] (dest_or_default dest0) of Inl _ \<Rightarrow> 0 | Inr _ \<Rightarrow> 1)) \<and>
   (is_datagov f \<longrightarrow>
      1 \<le> requests_issued w (snd (run_fetcher env f dest0 w)) \<and>
      requests_issued w (snd (run_fetcher env f dest0 w)) \<le> 2)"
proof (intro conjI impI)
  assume nd: "\<not> is_datagov f"
  show "requests_issued w (snd (run_fetcher env f dest0 w)) =
        (case mkdir_from (files w) [] (dest_or_default dest0) of Inl _ \<Rightarrow> 0 | Inr _ \<Rightarrow> 1)"
  proof (cases "kaggle_backed f")
    case True
    from run_fetcher_kaggle [OF True] obtain cmd where
      "run_fetcher env f dest0 = kaggle_download env cmd (dest_or_default dest0)" by blast
    then show ?thesis by (simp add: kaggle_download_requests)
  next
    case False
    from run_fetcher_download [OF nd False] obtain url name body where
      "run_fetcher env f dest0 =
        download env url (dest_or_default dest0) name
          (if checks_200 f then not_200_error else status_error) body" by blast
    then show ?thesis by (simp only: download_requests)
  qed
next
  assume "is_datagov f"
  then obtain resource_id where "f = Datagov resource_id" by (cases f) simp_all
  then show "1 \<le> requests_issued w (snd (run_fetcher env f dest0 w))"
    and "requests_issued w (snd (run_fetcher env f dest0 w)) \<le> 2"
    using datagov_requests by simp_all
qed

lemmas run_defs =
  io_bind_def io_return_def io_raise_def mkdir_def requests_get_def raise_for_status_def
  response_json_def subscript_def write_text_def write_bytes_def write_file_def
  is_dir_def Let_def dest_or_default_def DATA_DIR_def parse_path_def path_join_def
  last_segment_def empty_world_def mock_env_def plain_response_def

theorem requests_per_call_witness:
  "\<not> is_datagov (Cbs ''shnaton/2023/06_01.xlsx'') \<and>
   requests_issued empty_world
     (snd (run_fetcher (mock_env (plain_response 200 ''xlsx'')) (Cbs ''shnaton/2023/06_01.xlsx'')
             None empty_world)) = 1 \<and>
   is_datagov (Datagov ''7'') \<and>
   requests_issued empty_world
     (snd (run_fetcher (mock_env (plain_response 200 ''xlsx'')) (Datagov ''7'') None empty_world))
     \<le> 2"
  using requests_per_call [of "Cbs ''shnaton/2023/06_01.xlsx''" empty_world
          "mock_env (plain_response 200 ''xlsx'')" None]
        requests_per_call [of "Datagov ''7''" empty_world
          "mock_env (plain_response 200 ''xlsx'')" None]
  by (simp add: empty_world_def dest_or_default_def DATA_DIR_def parse_path_def is_dir_def)

text \<open>
  Claim C2 as stated allows no fetcher a second request. The resource fetcher, on a portal
  that answers with the description of a resource, issues two.
\<close>

theorem datagov_two_requests_counterexample:
  "run_fetcher (mock_env datagov_response) (Datagov ''7'') None empty_world =
     (Inr [''data_raw'', ''permits.csv''],
      \<lparr>files = [([''data_raw''], Dir), ([''data_raw'', ''permits.csv''], File ''a,b'')],
       trace = [EvGet ''https://data.gov.il/api/3/action/resource_show?id=7'',
                EvMkdir [''data_raw''],
                EvGet ''https://data.gov.il/dataset/7/permits.csv'',
                EvWrite [''data_raw'', ''permits.csv'']]\<rparr>) \<and>
   requests_issued empty_world
     (snd (run_fetcher (mock_env datagov_response) (Datagov ''7'') None empty_world)) = 2"
  by (simp add: fetch_datagov_resource_def run_defs datagov_response_def requests_issued_def
      new_events_def)

lemma mkdir_from_errors:
  "mkdir_from fs pre p = Inl e \<Longrightarrow> e = FileExistsError \<or> e = NotADirectoryError"
  by (induction p arbitrary: fs pre) (auto simp: Let_def split: if_splits)

lemma download_status_error:
  assumes "mkdir_from (files w) [] dest = Inr fs1" and "http env url = Inr r"
    and "400 \<le> status_code r" and "status_code r < 600"
  shows "download env url dest name status_error body w =
     (Inl (HTTPError (status_code r)),
      w\<lparr>files := fs1, trace := trace w @ [EvMkdir dest, EvGet url]\<rparr>)"
  using assms by (simp add: download_check_fails status_error_def)

lemma download_no_http_error:
  assumes "http env url = Inr r" and "\<not> (400 \<le> status_code r \<and> status_code r < 600)"
  shows "fst (download env url dest name status_error body w) \<noteq> Inl (HTTPError n)"
proof (cases "mkdir_from (files w) [] dest")
  case (Inl e)
  with mkdir_from_errors [OF Inl] show ?thesis
    by (auto simp: download_def)
next
  case (Inr fs1)
  with assms show ?thesis
    by (auto simp: download_def status_error_def write_file_def Let_def split: if_splits)
qed

lemma datagov_status_error:
  assumes "http env (''https://data.gov.il/api/3/action/resource_show?id='' @ resource_id) = Inr r"
    and "400 \<le> status_code r" and "status_code r < 600"
  shows "fetch_datagov_resource env resource_id dest0 w =
     (Inl (HTTPError (status_code r)),
      w\<lparr>trace := trace w @
         [EvGet (''https://data.gov.il/api/3/action/resource_show?id='' @ resource_id)]\<rparr>)"
  using assms
  by (simp add: fetch_datagov_resource_def io_bind_def requests_get_def raise_for_status_def
      io_raise_def)

lemma datagov_no_http_error:
  assumes "\<forall>u. http env u = Inr r" and "\<not> (400 \<le> status_code r \<and> status_code r < 600)"
  shows "fst (fetch_datagov_resource env resource_id dest0 w) \<noteq> Inl (HTTPError n)"
proof -
  have m: "\<And>fs p. mkdir_from fs [] p \<noteq> Inl (HTTPError n)"
    using mkdir_from_errors by fastforce
  show ?thesis
    using assms m
    unfolding fetch_datagov_resource_def Let_def
    by (auto simp: io_bind_def requests_get_def raise_for_status_eq status_error_def
          response_json_def subscript_def io_raise_def io_return_def mkdir_def write_bytes_def
          write_file_def Let_def
        split: sum.splits option.splits prod.splits if_splits json.splits)
qed

text \<open>
  Claim C7, as amended. For every fetcher that calls \<open>raise_for_status\<close> (all but the
  Kaggle fetchers and the two undocumented endpoints), against a transport that answers
  every URL with the same response, and with a destination that can be created: a status
  from 400 to 599 is raised as \<open>HTTPError\<close> at once, after exactly one request, with no
  write attempted and the regular files unchanged; any other status, the non-2xx ones
  below 400 or from 600 included, is never raised as \<open>HTTPError\<close>.
\<close>

theorem http_error_statuses:
  assumes "raises_for_status f" and "\<forall>u. http env u = Inr r"
    and "mkdir_from (files w) [] (dest_or_default dest0) = Inr fs1"
  shows "(400 \<le> status_code r \<and> status_code r < 600 \<longrightarrow>
            fst (run_fetcher env f dest0 w) = Inl (HTTPError (status_code r)) \<and>
            requests_issued w (snd (run_fetcher env f dest0 w)) = 1 \<and>
            filter is_write (new_events w (snd (run_fetcher env f dest0 w))) = [] \<and>
            file_entries (files (snd (run_fetcher env f dest0 w))) = file_entries (files w)) \<and>
         (\<not> (400 \<le> status_code r \<and> status_code r < 600) \<longrightarrow>
            (\<forall>n. fst (run_fetcher env f dest0 w) \<noteq> Inl (HTTPError n)))"
proof (cases "is_datagov f")
  case True
  then obtain resource_id where f: "f = Datagov resource_id" by (cases f) simp_all
  have h: "http env (''https://data.gov.il/api/3/action/resource_show?id='' @ resource_id) = Inr r"
    using assms(2) by simp
  show ?thesis
    using datagov_status_error [OF h, of dest0 w] datagov_no_http_error [OF assms(2), of resource_id dest0 w]
    by (auto simp: f requests_issued_def new_events_def)
next
  case False
  from assms(1) have "\<not> kaggle_backed f" and c: "\<not> checks_200 f"
    by (simp_all add: raises_for_status_def)
  from run_fetcher_download [OF False this(1), of env dest0] c obtain url name body where
    run: "run_fetcher env f dest0 = download env url (dest_or_default dest0) name status_error body"
    by auto
  have h: "http env url = Inr r" using assms(2) by simp
  show ?thesis
    using download_status_error [OF assms(3) h, of name body]
          download_no_http_error [OF h, of "dest_or_default dest0" name body w]
          mkdir_from_files [OF assms(3)]
    by (auto simp: run requests_issued_def new_events_def)
qed

theorem http_error_statuses_witness:
  "raises_for_status (Opentaba ''100-0136956'') \<and>
   (\<forall>u. http (mock_env (plain_response 503 ''busy'')) u = Inr (plain_response 503 ''busy'')) \<and>
   mkdir_from (files empty_world) [] (dest_or_default None) = Inr [([''data_raw''], Dir)] \<and>
   fst (run_fetcher (mock_env (plain_response 503 ''busy'')) (Opentaba ''100-0136956'') None
          empty_world) = Inl (HTTPError 503) \<and>
   requests_issued empty_world
     (snd (run_fetcher (mock_env (plain_response 503 ''busy'')) (Opentaba ''100-0136956'') None
             empty_world)) = 1"
proof -
  have a: "raises_for_status (Opentaba ''100-0136956'')"
    by (simp add: raises_for_status_def)
  have b: "\<forall>u. http (mock_env (plain_response 503 ''busy'')) u = Inr (plain_response 503 ''busy'')"
    by (simp add: mock_env_def)
  have c: "mkdir_from (files empty_world) [] (dest_or_default None) = Inr [([''data_raw''], Dir)]"
    by (simp add: empty_world_def dest_or_default_def DATA_DIR_def parse_path_def is_dir_def)
  show ?thesis
    using a b c http_error_statuses [OF a b c] by (simp add: plain_response_def)
qed

lemma str_int_2023: "str_int 2023 = ''2023''"
  by code_simp

text \<open>
  Claim C7 as stated has every non-2xx status raised. A response with status 304 is not:
  the call writes the (empty) body and returns the path.
\<close>

theorem not_modified_counterexample:
  "run_fetcher (mock_env (plain_response 304 [])) (Nadlan_gov 2023) None empty_world =
     (Inr [''data_raw'', ''nadlan_transactions_2023.json''],
      \<lparr>files = [([''data_raw''], Dir),
                ([''data_raw'', ''nadlan_transactions_2023.json''], File [])],
       trace = [EvMkdir [''data_raw''],
                EvGet (''https://data.gov.il/api/3/action/datastore_search'' @
                       ''?resource_id=da54c6e7-6c2c-4e7b-9eae-32f7e7fb1317'' @
                       ''&limit=100000&filters={'' @ [CHR 0x22] @ ''year'' @ [CHR 0x22] @
                       '':2023}''),
                EvWrite [''data_raw'', ''nadlan_transactions_2023.json'']]\<rparr>) \<and>
   \<not> (200 \<le> status_code (plain_response 304 []) \<and> status_code (plain_response 304 []) < 300)"
  by (simp add: fetch_nadlan_gov_transactions_def run_defs str_int_2023)

lemma download_first_event:
  "\<exists>rest. new_events w (snd (download env url dest name chk body w)) = EvMkdir dest # rest"
  using new_events_eq [OF download_trace] by blast

lemma kaggle_download_first_event:
  "\<exists>rest. new_events w (snd (kaggle_download env cmd dest w)) = EvMkdir dest # rest"
  using new_events_eq [OF kaggle_download_trace] by blast

lemma write_file_errors:
  "write_file p data w0 = (Inl e, w') \<Longrightarrow>
   e = IsADirectoryError \<or> e = FileNotFoundError (str_path p) \<or> e = NotADirectoryError"
  by (auto simp: write_file_def Let_def split: if_splits)

lemma download_status_failure:
  assumes "chk = status_error \<or> chk = not_200_error"
    and "fst (download env url dest name chk body w) = Inl (HTTPError n) \<or>
         fst (download env url dest name chk body w) = Inl (RuntimeError m)"
  shows "is_dir (files (snd (download env url dest name chk body w))) dest \<and>
         file_entries (files (snd (download env url dest name chk body w))) = file_entries (files w) \<and>
         filter is_write (new_events w (snd (download env url dest name chk body w))) = []"
proof (cases "mkdir_from (files w) [] dest")
  case (Inl e)
  with mkdir_from_errors [OF Inl] assms(2) show ?thesis
    by (auto simp: download_def)
next
  case (Inr fs1)
  have "snd (download env url dest name chk body w) =
          w\<lparr>files := fs1, trace := trace w @ [EvMkdir dest, EvGet url]\<rparr>"
    using assms(2) Inr
    by (auto simp: download_def Let_def split: sum.splits option.splits prod.splits
        dest: write_file_errors)
  then show ?thesis
    using mkdir_from_dest [OF Inr] mkdir_from_files [OF Inr] by (simp add: new_events_def)
qed

text \<open>
  Claim C10, as amended. Every fetcher other than the data.gov.il resource fetcher creates
  the destination directory first: the creation is the first event of the call, before
  any request or subprocess. So when one of the eight single-request fetchers fails on the
  status of the response (\<open>HTTPError\<close> or \<open>RuntimeError\<close>), the destination is a directory
  afterwards, no write was attempted and the regular files are unchanged. The resource
  fetcher requests the description before it creates the destination: when that request
  is answered with a status from 400 to 599, the call ends there and the file system is
  untouched.
\<close>

theorem destination_created_first:
  "(\<not> is_datagov f \<longrightarrow>
      (\<exists>rest. new_events w (snd (run_fetcher env f dest0 w)) =
                 EvMkdir (dest_or_default dest0) # rest)) \<and>
   (\<not> is_datagov f \<and> \<not> kaggle_backed f \<and>
    (fst (run_fetcher env f dest0 w) = Inl (HTTPError n) \<or>
     fst (run_fetcher env f dest0 w) = Inl (RuntimeError m)) \<longrightarrow>
      is_dir (files (snd (run_fetcher env f dest0 w))) (dest_or_default dest0) \<and>
      file_entries (files (snd (run_fetcher env f dest0 w))) = file_entries (files w) \<and>
      filter is_write (new_events w (snd (run_fetcher env f dest0 w))) = []) \<and>
   (\<forall>resource_id r.
      f = Datagov resource_id \<and>
      http env (''https://data.gov.il/api/3/action/resource_show?id='' @ resource_id) = Inr r \<and>
      400 \<le> status_code r \<and> status_code r < 600 \<longrightarrow>
        run_fetcher env f dest0 w =
          (Inl (HTTPError (status_code r)),
           w\<lparr>trace := trace w @
              [EvGet (''https://data.gov.il/api/3/action/resource_show?id='' @ resource_id)]\<rparr>))"
proof -
  have first: "\<exists>rest. new_events w (snd (run_fetcher env f dest0 w)) =
                 EvMkdir (dest_or_default dest0) # rest" if nd: "\<not> is_datagov f"
  proof (cases "kaggle_backed f")
    case True
    from run_fetcher_kaggle [OF True] obtain cmd where
      "run_fetcher env f dest0 = kaggle_download env cmd (dest_or_default dest0)" by blast
    then show ?thesis by (simp only: kaggle_download_first_event)
  next
    case False
    from run_fetcher_download [OF nd False] obtain url name body where
      "run_fetcher env f dest0 =
        download env url (dest_or_default dest0) name
          (if checks_200 f then not_200_error else status_error) body" by blast
    then show ?thesis by (simp only: download_first_event)
  qed
  have failed: "is_dir (files (snd (run_fetcher env f dest0 w))) (dest_or_default dest0) \<and>
      file_entries (files (snd (run_fetcher env f dest0 w))) = file_entries (files w) \<and>
      filter is_write (new_events w (snd (run_fetcher env f dest0 w))) = []"
    if nd: "\<not> is_datagov f" and nk: "\<not> kaggle_backed f"
      and a: "fst (run_fetcher env f dest0 w) = Inl (HTTPError n) \<or>
              fst (run_fetcher env f dest0 w) = Inl (RuntimeError m)"
  proof -
    from run_fetcher_download [OF nd nk] obtain url name body where
      run: "run_fetcher env f dest0 =
          download env url (dest_or_default dest0) name
            (if checks_200 f then not_200_error else status_error) body" by blast
    have c: "(if checks_200 f then not_200_error else status_error) = status_error \<or>
             (if checks_200 f then not_200_error else status_error) = not_200_error"
      by simp
    from a have b: "fst (download env url (dest_or_default dest0) name
            (if checks_200 f then not_200_error else status_error) body w) = Inl (HTTPError n) \<or>
         fst (download env url (dest_or_default dest0) name
            (if checks_200 f then not_200_error else status_error) body w) = Inl (RuntimeError m)"
      by (simp only: run)
    from download_status_failure [OF c b] show ?thesis
      by (simp only: run)
  qed
  have datagov: "run_fetcher env f dest0 w =
          (Inl (HTTPError (status_code r)),
           w\<lparr>trace := trace w @
              [EvGet (''https://data.gov.il/api/3/action/resource_show?id='' @ resource_id)]\<rparr>)"
    if "f = Datagov resource_id"
      and "http env (''https://data.gov.il/api/3/action/resource_show?id='' @ resource_id) = Inr r"
      and "400 \<le> status_code r" and "status_code r < 600" for resource_id r
    using that datagov_status_error [of env resource_id r dest0 w] by simp
  show ?thesis
    using first failed datagov by blast
qed

theorem destination_created_first_witness:
  "\<not> is_datagov C4c \<and> \<not> kaggle_backed C4c \<and>
   fst (run_fetcher (mock_env (plain_response 404 ''gone'')) C4c None empty_world) =
     Inl (RuntimeError ''API endpoint not available or has changed.'') \<and>
   is_dir (files (snd (run_fetcher (mock_env (plain_response 404 ''gone'')) C4c None empty_world)))
     [''data_raw''] \<and>
   new_events empty_world
     (snd (run_fetcher (mock_env (plain_response 404 ''gone'')) C4c None empty_world)) =
     [EvMkdir [''data_raw''], EvGet ''https://c4c.org.il/api/projects'']"
proof -
  have r: "fst (run_fetcher (mock_env (plain_response 404 ''gone'')) C4c None empty_world) =
     Inl (RuntimeError ''API endpoint not available or has changed.'')"
    by (simp add: fetch_citizens4citizens_projects_def run_defs)
  have e: "new_events empty_world
     (snd (run_fetcher (mock_env (plain_response 404 ''gone'')) C4c None empty_world)) =
     [EvMkdir [''data_raw''], EvGet ''https://c4c.org.il/api/projects'']"
    by (simp add: fetch_citizens4citizens_projects_def run_defs new_events_def)
  show ?thesis
    using r e destination_created_first [of C4c empty_world "mock_env (plain_response 404 ''gone'')" None
        0 "''API endpoint not available or has changed.''"]
    by (simp add: dest_default)
qed

text \<open>
  Claim C10 as stated has every fetcher create the destination before its request. The
  resource fetcher, on a portal that answers 404, fails without creating it.
\<close>

theorem datagov_destination_counterexample:
  "run_fetcher (mock_env (plain_response 404 ''gone'')) (Datagov ''7'') None empty_world =
     (Inl (HTTPError 404),
      \<lparr>files = [], trace = [EvGet ''https://data.gov.il/api/3/action/resource_show?id=7'']\<rparr>) \<and>
   \<not> is_dir
       (files (snd (run_fetcher (mock_env (plain_response 404 ''gone'')) (Datagov ''7'') None
                      empty_world)))
       (dest_or_default None)"
  by (simp add: fetch_datagov_resource_def run_defs)

subsection \<open>Decimal strings\<close>

lemma of_char_digit: "d < 10 \<Longrightarrow> of_char (digit_char d) = 48 + d"
  unfolding digit_char_def of_char_of by simp

lemma digit_char_inj: "d < 10 \<Longrightarrow> e < 10 \<Longrightarrow> digit_char d = digit_char e \<Longrightarrow> d = e"
proof -
  assume d: "d < 10" and e: "e < 10" and eq: "digit_char d = digit_char e"
  have "(of_char (digit_char d) :: nat) = of_char (digit_char e)" by (simp only: eq)
  then show "d = e" by (simp only: of_char_digit [OF d] of_char_digit [OF e] add_left_cancel)
qed

lemma of_char_slash: "(of_char (CHR ''/'') :: nat) = 47" by simp

lemma of_char_dash: "(of_char (CHR ''-'') :: nat) = 45" by simp

lemma digit_char_not_slash: "d < 10 \<Longrightarrow> digit_char d \<noteq> CHR ''/''"
proof
  assume d: "d < 10" and eq: "digit_char d = CHR ''/''"
  have "(of_char (digit_char d) :: nat) = 47" by (simp only: eq of_char_slash)
  then show False by (simp only: of_char_digit [OF d])
qed

lemma digit_char_not_dash: "d < 10 \<Longrightarrow> digit_char d \<noteq> CHR ''-''"
proof
  assume d: "d < 10" and eq: "digit_char d = CHR ''-''"
  have "(of_char (digit_char d) :: nat) = 45" by (simp only: eq of_char_dash)
  then show False by (simp only: of_char_digit [OF d])
qed

lemma str_nat_digits: "c \<in> set (str_nat n) \<Longrightarrow> \<exists>d<10. c = digit_char d"
proof (induction n rule: str_nat.induct)
  case (1 n)
  show ?case
  proof (cases "n < 10")
    case True
    with "1.prems" show ?thesis by (auto simp: str_nat.simps [of n])
  next
    case False
    with "1.prems" have "c \<in> set (str_nat (n div 10)) \<or> c = digit_char (n mod 10)"
      by (auto simp: str_nat.simps [of n])
    then show ?thesis
    proof
      assume "c \<in> set (str_nat (n div 10))"
      with "1.IH" False show ?thesis by simp
    next
      assume "c = digit_char (n mod 10)"
      moreover have "n mod 10 < 10" by simp
      ultimately show ?thesis by blast
    qed
  qed
qed

lemma str_nat_nonempty: "str_nat n \<noteq> []"
  by (subst str_nat.simps) simp

lemma str_nat_inj: "str_nat m = str_nat n \<Longrightarrow> m = n"
proof (induction m arbitrary: n rule: str_nat.induct)
  case (1 m)
  show ?case
  proof (cases "m < 10")
    case m: True
    show ?thesis
    proof (cases "n < 10")
      case True
      with m "1.prems" show ?thesis
        by (simp add: str_nat.simps [of m] str_nat.simps [of n] digit_char_inj)
    next
      case False
      with m "1.prems" have "[digit_char m] = str_nat (n div 10) @ [digit_char (n mod 10)]"
        by (simp add: str_nat.simps [of m] str_nat.simps [of n])
      then have "str_nat (n div 10) = []" by simp
      with str_nat_nonempty show ?thesis by blast
    qed
  next
    case m: False
    show ?thesis
    proof (cases "n < 10")
      case True
      with m "1.prems" have "str_nat (m div 10) @ [digit_char (m mod 10)] = [digit_char n]"
        by (simp add: str_nat.simps [of m] str_nat.simps [of n])
      then have "str_nat (m div 10) = []" by simp
      with str_nat_nonempty show ?thesis by blast
    next
      case False
      with m "1.prems" have
        eq: "str_nat (m div 10) @ [digit_char (m mod 10)] = str_nat (n div 10) @ [digit_char (n mod 10)]"
        by (simp add: str_nat.simps [of m] str_nat.simps [of n])
      then have a: "str_nat (m div 10) = str_nat (n div 10)"
        and b: "digit_char (m mod 10) = digit_char (n mod 10)" by simp_all
      from "1.IH" [OF m a] have q: "m div 10 = n div 10" .
      from digit_char_inj [OF _ _ b] have r: "m mod 10 = n mod 10" by simp
      from q r show ?thesis by (metis div_mult_mod_eq)
    qed
  qed
qed

lemma str_nat_no_slash: "CHR ''/'' \<notin> set (str_nat n)"
proof
  assume "CHR ''/'' \<in> set (str_nat n)"
  from str_nat_digits [OF this] obtain d where "d < 10" and "CHR ''/'' = digit_char d" by blast
  with digit_char_not_slash [of d] show False by simp
qed

lemma str_nat_no_dash: "CHR ''-'' \<notin> set (str_nat n)"
proof
  assume "CHR ''-'' \<in> set (str_nat n)"
  from str_nat_digits [OF this] obtain d where "d < 10" and "CHR ''-'' = digit_char d" by blast
  with digit_char_not_dash [of d] show False by simp
qed

lemma str_int_no_slash: "CHR ''/'' \<notin> set (str_int i)"
  by (simp add: str_int_def str_nat_no_slash)

lemma str_int_inj: "str_int i = str_int j \<Longrightarrow> i = j"
proof -
  assume eq: "str_int i = str_int j"
  have hd_nat: "\<And>n. hd (str_nat n) \<noteq> CHR ''-''"
    using str_nat_no_dash str_nat_nonempty by (metis list.set_sel(1))
  consider "i < 0" "j < 0" | "i < 0" "\<not> j < 0" | "\<not> i < 0" "j < 0" | "\<not> i < 0" "\<not> j < 0"
    by blast
  then show ?thesis
  proof cases
    case 1
    with eq have "nat (- i) = nat (- j)" by (simp add: str_int_def str_nat_inj)
    with 1 show ?thesis by simp
  next
    case 2
    with eq have "CHR ''-'' # str_nat (nat (- i)) = str_nat (nat j)" by (simp add: str_int_def)
    then have "hd (str_nat (nat j)) = CHR ''-''" by (metis list.sel(1))
    with hd_nat show ?thesis by blast
  next
    case 3
    with eq have "str_nat (nat i) = CHR ''-'' # str_nat (nat (- j))" by (simp add: str_int_def)
    then have "hd (str_nat (nat i)) = CHR ''-''" by (metis list.sel(1))
    with hd_nat show ?thesis by blast
  next
    case 4
    with eq have "nat i = nat j" by (simp add: str_int_def str_nat_inj)
    with 4 show ?thesis by simp
  qed
qed

subsection \<open>Splitting and joining\<close>

lemma split_on_nonempty: "split_on c s \<noteq> []"
  by (induction s) (auto split: list.splits)

lemma split_on_no_sep: "c \<notin> set s \<Longrightarrow> split_on c s = [s]"
  by (induction s) auto

lemma split_on_segments: "seg \<in> set (split_on c s) \<Longrightarrow> c \<notin> set seg"
  by (induction s arbitrary: seg) (auto split: if_splits list.splits)

lemma split_on_append: "split_on c (xs @ c # ys) = split_on c xs @ split_on c ys"
  by (induction xs) (auto simp: split_on_nonempty split: list.splits)

lemma last_split_on_append: "last (split_on c (xs @ c # ys)) = last (split_on c ys)"
  by (simp add: split_on_append split_on_nonempty)

lemma last_segment_no_slash: "CHR ''/'' \<notin> set (last_segment s)"
  unfolding last_segment_def
  using split_on_segments [of "last (split_on CHR ''/'' s)" "CHR ''/''" s] split_on_nonempty [of "CHR ''/''" s]
  by auto

lemma last_segment_append: "last_segment (xs @ ''/'' @ ys) = last_segment ys"
  by (simp add: last_segment_def last_split_on_append)

lemma path_join_plain:
  "CHR ''/'' \<notin> set name \<Longrightarrow>
   path_join dest name = (if name = [] \<or> name = ''.'' then dest else dest @ [name])"
  by (cases name) (auto simp: path_join_def parse_path_def split_on_no_sep)

lemma download_success:
  assumes "fst (download env url dest name chk body w) = Inr p"
  shows "p = path_join dest name \<and> p \<noteq> dest"
proof (cases "mkdir_from (files w) [] dest")
  case (Inl e)
  with assms show ?thesis by (simp add: download_def)
next
  case (Inr fs1)
  from mkdir_from_dest [OF Inr] have "is_dir fs1 dest" .
  with assms Inr show ?thesis
    by (auto simp: download_def Let_def write_file_def
        split: sum.splits option.splits prod.splits if_splits)
qed

lemma download_success_plain:
  assumes "fst (download env url dest name chk body w) = Inr p" and "CHR ''/'' \<notin> set name"
  shows "p = dest @ [name]"
  using download_success [OF assms(1)] path_join_plain [OF assms(2), of dest]
  by (auto split: if_splits)

lemma run_fetcher_download_all:
  "\<not> is_datagov f \<Longrightarrow> \<not> kaggle_backed f \<Longrightarrow>
   \<exists>url name chk body.
      \<forall>env. run_fetcher env f dest0 = download env url (dest_or_default dest0) name chk body"
  by (cases f) (simp_all add: fetcher_shapes, blast+)

lemma nadlan_gov_path:
  "fst (run_fetcher env (Nadlan_gov y) d w) = Inr p \<Longrightarrow>
   p = dest_or_default d @ [''nadlan_transactions_'' @ str_int y @ ''.json'']"
  by (simp add: nadlan_gov_download) (erule download_success_plain, simp add: str_int_no_slash)

lemma nadlan_taxes_path:
  "fst (run_fetcher env (Nadlan_taxes y) d w) = Inr p \<Longrightarrow>
   p = dest_or_default d @ [''nadlan_taxes_page_'' @ str_int y @ ''.html'']"
  by (simp add: nadlan_taxes_download) (erule download_success_plain, simp add: str_int_no_slash)

lemma hasadna_air_path:
  "fst (run_fetcher env (Hasadna_air y) d w) = Inr p \<Longrightarrow>
   p = dest_or_default d @ [''hasadna_openmunicipality_air_'' @ str_int y @ ''.json'']"
  by (simp add: hasadna_air_download) (erule download_success_plain, simp add: str_int_no_slash)

lemma opentaba_path:
  "fst (run_fetcher env (Opentaba a) d w) = Inr p \<Longrightarrow> CHR ''/'' \<notin> set a \<Longrightarrow>
   p = dest_or_default d @ [''opentaba_plan_'' @ a @ ''.json'']"
  by (simp add: opentaba_download) (erule download_success_plain, simp)

lemma hasadna_crime_path:
  "fst (run_fetcher env (Hasadna_crime a) d w) = Inr p \<Longrightarrow> CHR ''/'' \<notin> set a \<Longrightarrow>
   p = dest_or_default d @ [''hasadna_openpolice_'' @ a @ ''.json'']"
  by (simp add: hasadna_crime_download) (erule download_success_plain, simp)

lemma cbs_path:
  "fst (run_fetcher env (Cbs a) d w) = Inr p \<Longrightarrow> p = dest_or_default d @ [last_segment a]"
proof -
  assume "fst (run_fetcher env (Cbs a) d w) = Inr p"
  then have "fst (download env (''https://www.cbs.gov.il/he/publications/doclib'' @ ''/'' @ a)
      (dest_or_default d)
      (last_segment (''https://www.cbs.gov.il/he/publications/doclib'' @ ''/'' @ a))
      status_error resp_content w) = Inr p"
    by (simp only: run_fetcher.simps cbs_download)
  from download_success_plain [OF this last_segment_no_slash]
  show ?thesis by (simp only: last_segment_append)
qed

text \<open>
  Claim C3, as amended. For the eight single-request fetchers the returned path depends
  only on the fetcher, its parameters and the destination: two successful calls with the
  same parameters return the same path, whatever the server and the disk. For the three
  fetchers with an integer parameter, different parameters give different paths. For the
  zoning-plan and crime fetchers, different parameters without \<open>/\<close> give different paths.
  The CBS fetcher names its file after the last \<open>/\<close>-segment of the table id: two table
  ids give the same path exactly when their last segments are equal.
\<close>

theorem output_paths:
  "(\<not> is_datagov f \<and> \<not> kaggle_backed f \<and>
    fst (run_fetcher env f d w) = Inr p \<and> fst (run_fetcher env' f d w') = Inr p' \<longrightarrow> p = p') \<and>
   (fst (run_fetcher env (Nadlan_gov y) d w) = Inr p \<and>
    fst (run_fetcher env' (Nadlan_gov y') d w') = Inr p' \<and> y \<noteq> y' \<longrightarrow> p \<noteq> p') \<and>
   (fst (run_fetcher env (Nadlan_taxes y) d w) = Inr p \<and>
    fst (run_fetcher env' (Nadlan_taxes y') d w') = Inr p' \<and> y \<noteq> y' \<longrightarrow> p \<noteq> p') \<and>
   (fst (run_fetcher env (Hasadna_air y) d w) = Inr p \<and>
    fst (run_fetcher env' (Hasadna_air y') d w') = Inr p' \<and> y \<noteq> y' \<longrightarrow> p \<noteq> p') \<and>
   (fst (run_fetcher env (Opentaba a) d w) = Inr p \<and>
    fst (run_fetcher env' (Opentaba b) d w') = Inr p' \<and>
    CHR ''/'' \<notin> set a \<and> CHR ''/'' \<notin> set b \<and> a \<noteq> b \<longrightarrow> p \<noteq> p') \<and>
   (fst (run_fetcher env (Hasadna_crime a) d w) = Inr p \<and>
    fst (run_fetcher env' (Hasadna_crime b) d w') = Inr p' \<and>
    CHR ''/'' \<notin> set a \<and> CHR ''/'' \<notin> set b \<and> a \<noteq> b \<longrightarrow> p \<noteq> p') \<and>
   (fst (run_fetcher env (Cbs a) d w) = Inr p \<and>
    fst (run_fetcher env' (Cbs b) d w') = Inr p' \<longrightarrow>
      (p = p' \<longleftrightarrow> last_segment a = last_segment b))"
proof -
  have same: "p = p'"
    if "\<not> is_datagov f" "\<not> kaggle_backed f"
      "fst (run_fetcher env f d w) = Inr p" "fst (run_fetcher env' f d w') = Inr p'"
  proof -
    from run_fetcher_download_all [OF that(1,2), of d] obtain url name chk body where
      run: "\<And>e. run_fetcher e f d = download e url (dest_or_default d) name chk body" by blast
    from that(3) have "fst (download env url (dest_or_default d) name chk body w) = Inr p"
      by (simp only: run)
    from download_success [OF this] have "p = path_join (dest_or_default d) name" by blast
    moreover from that(4) have "fst (download env' url (dest_or_default d) name chk body w') = Inr p'"
      by (simp only: run)
    from download_success [OF this] have "p' = path_join (dest_or_default d) name" by blast
    ultimately show ?thesis by simp
  qed
  have gov: "p \<noteq> p'"
    if "fst (run_fetcher env (Nadlan_gov y) d w) = Inr p"
      "fst (run_fetcher env' (Nadlan_gov y') d w') = Inr p'" "y \<noteq> y'"
    using nadlan_gov_path [OF that(1)] nadlan_gov_path [OF that(2)] that(3) str_int_inj
    by auto
  have taxes: "p \<noteq> p'"
    if "fst (run_fetcher env (Nadlan_taxes y) d w) = Inr p"
      "fst (run_fetcher env' (Nadlan_taxes y') d w') = Inr p'" "y \<noteq> y'"
    using nadlan_taxes_path [OF that(1)] nadlan_taxes_path [OF that(2)] that(3) str_int_inj
    by auto
  have air: "p \<noteq> p'"
    if "fst (run_fetcher env (Hasadna_air y) d w) = Inr p"
      "fst (run_fetcher env' (Hasadna_air y') d w') = Inr p'" "y \<noteq> y'"
    using hasadna_air_path [OF that(1)] hasadna_air_path [OF that(2)] that(3) str_int_inj
    by auto
  have taba: "p \<noteq> p'"
    if "fst (run_fetcher env (Opentaba a) d w) = Inr p"
      "fst (run_fetcher env' (Opentaba b) d w') = Inr p'"
      "CHR ''/'' \<notin> set a" "CHR ''/'' \<notin> set b" "a \<noteq> b"
    using opentaba_path [OF that(1) that(3)] opentaba_path [OF that(2) that(4)] that(5)
    by auto
  have crime: "p \<noteq> p'"
    if "fst (run_fetcher env (Hasadna_crime a) d w) = Inr p"
      "fst (run_fetcher env' (Hasadna_crime b) d w') = Inr p'"
      "CHR ''/'' \<notin> set a" "CHR ''/'' \<notin> set b" "a \<noteq> b"
    using hasadna_crime_path [OF that(1) that(3)] hasadna_crime_path [OF that(2) that(4)] that(5)
    by auto
  have cbs: "p = p' \<longleftrightarrow> last_segment a = last_segment b"
    if "fst (run_fetcher env (Cbs a) d w) = Inr p" "fst (run_fetcher env' (Cbs b) d w') = Inr p'"
    using cbs_path [OF that(1)] cbs_path [OF that(2)] by auto
  show ?thesis
    using same gov taxes air taba crime cbs by blast
qed

lemma str_int_2022: "str_int 2022 = ''2022''"
  by code_simp

lemma run_nadlan_gov_2022:
  "fst (run_fetcher (mock_env (plain_response 200 ''{}'')) (Nadlan_gov 2022) None empty_world) =
     Inr [''data_raw'', ''nadlan_transactions_2022.json'']"
  by (simp add: fetch_nadlan_gov_transactions_def run_defs str_int_2022)

lemma run_nadlan_gov_2023:
  "fst (run_fetcher (mock_env (plain_response 200 ''{}'')) (Nadlan_gov 2023) None empty_world) =
     Inr [''data_raw'', ''nadlan_transactions_2023.json'']"
  by (simp add: fetch_nadlan_gov_transactions_def run_defs str_int_2023)

lemma run_cbs_2022:
  "fst (run_fetcher (mock_env (plain_response 200 ''{}'')) (Cbs ''shnaton/2022/06_01.xlsx'') None
          empty_world) = Inr [''data_raw'', ''06_01.xlsx'']"
  by (simp add: fetch_cbs_table_def run_defs)

lemma run_cbs_2023:
  "fst (run_fetcher (mock_env (plain_response 200 ''{}'')) (Cbs ''shnaton/2023/06_01.xlsx'') None
          empty_world) = Inr [''data_raw'', ''06_01.xlsx'']"
  by (simp add: fetch_cbs_table_def run_defs)

theorem output_paths_witness:
  "fst (run_fetcher (mock_env (plain_response 200 ''{}'')) (Nadlan_gov 2022) None empty_world) =
     Inr [''data_raw'', ''nadlan_transactions_2022.json''] \<and>
   fst (run_fetcher (mock_env (plain_response 200 ''{}'')) (Nadlan_gov 2023) None empty_world) =
     Inr [''data_raw'', ''nadlan_transactions_2023.json''] \<and>
   (2022 :: int) \<noteq> 2023 \<and>
   [''data_raw'', ''nadlan_transactions_2022.json''] \<noteq>
     [''data_raw'', ''nadlan_transactions_2023.json''] \<and>
   fst (run_fetcher (mock_env (plain_response 200 ''{}'')) (Cbs ''shnaton/2022/06_01.xlsx'') None
          empty_world) = Inr [''data_raw'', ''06_01.xlsx''] \<and>
   fst (run_fetcher (mock_env (plain_response 200 ''{}'')) (Cbs ''shnaton/2023/06_01.xlsx'') None
          empty_world) = Inr [''data_raw'', ''06_01.xlsx''] \<and>
   last_segment ''shnaton/2022/06_01.xlsx'' = last_segment ''shnaton/2023/06_01.xlsx''"
  using output_paths [of "Nadlan_gov 2022" "mock_env (plain_response 200 ''{}'')" None empty_world
          "[''data_raw'', ''nadlan_transactions_2022.json'']"
          "mock_env (plain_response 200 ''{}'')" empty_world
          "[''data_raw'', ''nadlan_transactions_2023.json'']" 2022 2023]
        output_paths [of C4c "mock_env (plain_response 200 ''{}'')" None empty_world
          "[''data_raw'', ''06_01.xlsx'']"
          "mock_env (plain_response 200 ''{}'')" empty_world
          "[''data_raw'', ''06_01.xlsx'']" 0 0
          "''shnaton/2022/06_01.xlsx''" "''shnaton/2023/06_01.xlsx''"]
        run_nadlan_gov_2022 run_nadlan_gov_2023 run_cbs_2022 run_cbs_2023
  by simp

text \<open>
  Claim C3 as stated has no two parameter values share a path. Two CBS table ids that
  differ only in the directory part do.
\<close>

theorem cbs_collision_counterexample:
  "fst (run_fetcher (mock_env (plain_response 200 ''{}'')) (Cbs ''shnaton/2022/06_01.xlsx'') None
          empty_world) = Inr [''data_raw'', ''06_01.xlsx''] \<and>
   fst (run_fetcher (mock_env (plain_response 200 ''{}'')) (Cbs ''shnaton/2023/06_01.xlsx'') None
          empty_world) = Inr [''data_raw'', ''06_01.xlsx''] \<and>
   ''shnaton/2022/06_01.xlsx'' \<noteq> ''shnaton/2023/06_01.xlsx''"
  by (simp add: fetch_cbs_table_def run_defs)

end
